theory Spec2Isabelle
  imports Complex_Main
begin

section \<open>SplitPy \<^verbatim>\<open>utils.py\<close>: option handling and waveform acquisition\<close>

text \<open>
  The development embeds the functions of \<^verbatim>\<open>splitpy/utils.py\<close>:
  \<^verbatim>\<open>get_options\<close>, \<^verbatim>\<open>get_options_prep_offline\<close>, \<^verbatim>\<open>get_options_OL_proc\<close>,
  \<^verbatim>\<open>parse_localdata_for_comp\<close> and \<^verbatim>\<open>get_data_NEZ\<close>.
  Calls into the interpreter's and ObsPy's libraries (\<^verbatim>\<open>optparse\<close>, \<^verbatim>\<open>os.path.exists\<close>,
  \<^verbatim>\<open>UTCDateTime\<close>, \<^verbatim>\<open>read\<close>, \<^verbatim>\<open>Stream.merge\<close>, \<^verbatim>\<open>Stream.trim\<close>, the signal processing
  and the client) are parameters of the model; every exception the source can meet is a
  value of the type \<open>error\<close>.
\<close>

subsection \<open>Errors, samples, times\<close>

datatype error =
    ParserError string      \<comment> \<open>\<^verbatim>\<open>parser.error(msg)\<close>: the message is printed and the process exits\<close>
  | UnboundLocalError       \<comment> \<open>a local variable read before any assignment\<close>
  | IndexError              \<comment> \<open>\<^verbatim>\<open>stream[0]\<close> on a stream without traces\<close>
  | TypeError               \<comment> \<open>an operation on a value of the wrong type, such as \<^verbatim>\<open>None + stream\<close>\<close>
  | LibError string         \<comment> \<open>an exception raised inside a library call\<close>

text \<open>A floating-point sample is a number or NaN; \<open>feq\<close> is Python's \<^verbatim>\<open>==\<close> on floats,
  false whenever a NaN takes part.\<close>

datatype sample = NaN | Num real

fun feq :: "sample \<Rightarrow> sample \<Rightarrow> bool" where
  "feq (Num x) (Num y) = (x = y)"
| "feq _ _ = False"

fun isnan :: "sample \<Rightarrow> bool" where
  "isnan NaN = True"
| "isnan (Num _) = False"

text \<open>A \<^verbatim>\<open>UTCDateTime\<close> is given by its calendar fields: the year, the day of the year
  (1 to 366) and the seconds elapsed in that day. Comparisons of \<^verbatim>\<open>UTCDateTime\<close> objects
  compare their POSIX timestamps.\<close>

record utc =
  year :: nat
  julday :: nat
  sod :: real

definition days_before_year :: "nat \<Rightarrow> int" where
  "days_before_year y =
     365 * (int y - 1970)
     + ((int y - 1) div 4 - (int y - 1) div 100 + (int y - 1) div 400) - 477"

definition timestamp :: "utc \<Rightarrow> real" where
  "timestamp t = real_of_int ((days_before_year (year t) + int (julday t) - 1) * 86400) + sod t"

subsection \<open>Strings\<close>

definition digit :: "nat \<Rightarrow> char" where
  "digit n = ''0123456789'' ! (n mod 10)"

fun digits :: "nat \<Rightarrow> string" where
  "digits n = (if n < 10 then [digit n] else digits (n div 10) @ [digit n])"

declare digits.simps [simp del]

text \<open>\<^verbatim>\<open>strftime("%Y")\<close> gives the year in decimal, \<^verbatim>\<open>strftime("%j")\<close> the day of the year
  as three digits, zero padded.\<close>

definition strftime_Y :: "utc \<Rightarrow> string" where
  "strftime_Y t = digits (year t)"

definition strftime_j :: "utc \<Rightarrow> string" where
  "strftime_j t = [digit (julday t div 100), digit (julday t div 10), digit (julday t)]"

text \<open>\<^verbatim>\<open>str.upper()\<close> on ASCII text.\<close>

definition upper_char :: "char \<Rightarrow> char" where
  "upper_char c =
     (case map_of (zip ''abcdefghijklmnopqrstuvwxyz'' ''ABCDEFGHIJKLMNOPQRSTUVWXYZ'') c of
        None \<Rightarrow> c | Some u \<Rightarrow> u)"

definition upper :: "string \<Rightarrow> string" where
  "upper s = map upper_char s"

text \<open>The format specifications \<^verbatim>\<open>{:4s}\<close>, \<^verbatim>\<open>{:3s}\<close>, \<^verbatim>\<open>{:2s}\<close>, \<^verbatim>\<open>{:1s}\<close>: the string,
  padded with spaces on the right up to the minimum width.\<close>

definition pad :: "nat \<Rightarrow> string \<Rightarrow> string" where
  "pad w s = s @ replicate (w - length s) (CHR '' '')"

text \<open>\<^verbatim>\<open>str.split(sep)\<close> with a one-character separator: the empty string splits into one
  empty field.\<close>

fun split :: "char \<Rightarrow> string \<Rightarrow> string list" where
  "split sep [] = [[]]"
| "split sep (c # cs) =
     (if c = sep then [] # split sep cs
      else (case split sep cs of [] \<Rightarrow> [[c]] | w # ws \<Rightarrow> (c # w) # ws))"

text \<open>\<^verbatim>\<open>fnmatch\<close> on POSIX (no case normalisation): \<^verbatim>\<open>*\<close> matches any run of characters,
  \<^verbatim>\<open>?\<close> any single character, every other character itself. Bracket expressions are not
  modelled: the station, network and channel codes that enter the patterns are taken to
  be free of \<^verbatim>\<open>[\<close>.\<close>

fun fnmatch :: "string \<Rightarrow> string \<Rightarrow> bool" where
  "fnmatch [] [] = True"
| "fnmatch (c # cs) [] = False"
| "fnmatch [] (p # ps) = (p = CHR ''*'' \<and> fnmatch [] ps)"
| "fnmatch (c # cs) (p # ps) =
     (if p = CHR ''*'' then fnmatch (c # cs) ps \<or> fnmatch cs (p # ps)
      else if p = CHR ''?'' then fnmatch cs ps
      else p = c \<and> fnmatch cs ps)"

text \<open>\<^verbatim>\<open>fnmatch.filter(names, pat)\<close>: the names that match, in their order.\<close>

definition fnmatch_filter :: "string list \<Rightarrow> string \<Rightarrow> string list" where
  "fnmatch_filter names pat = filter (\<lambda>name. fnmatch name pat) names"

subsection \<open>Command-line options\<close>

text \<open>
  The three option functions call \<^verbatim>\<open>parser.parse_args()\<close> and then rewrite the parsed
  values in place. The model starts from what \<^verbatim>\<open>parse_args\<close> returns: the positional
  arguments and a record with the raw option values (a flag declared \<^verbatim>\<open>store_true\<close>
  with default \<^verbatim>\<open>False\<close> is \<open>True\<close> exactly when it was given on the command line).
  Only the options that the functions rewrite are fields of the records; every other
  option is returned as parsed. \<^verbatim>\<open>os.path.exists\<close> and the \<^verbatim>\<open>UTCDateTime\<close> constructor
  are the parameters \<open>exist\<close> and \<open>utc_of_string\<close> (\<open>None\<close> when the constructor raises).
\<close>

record args_OL =
  arg_stkeys :: string
  arg_startT :: string
  arg_endT :: string

record args_prep = args_OL +
  arg_UserAuth :: string
  arg_localdata :: "string option"
  arg_ndval :: bool

record args_OTF = args_prep +
  arg_skip :: bool
  arg_ovr :: bool

text \<open>The options as returned. \<open>stkeys\<close> stays the (empty) string when no key was given
  and is a list of keys otherwise.\<close>

record opts_OL =
  stkeys :: "string + string list"
  startT :: "utc option"
  endT :: "utc option"

record opts_prep = opts_OL +
  UserAuth :: "string list"
  localdata :: "string list"
  ndval :: sample

record opts_OTF = opts_prep +
  skip :: bool
  ovr :: bool

text \<open>Lines 127-129, 280-282, 407-409: the station key list.\<close>

definition station_keys :: "string \<Rightarrow> string + string list" where
  "station_keys s = (if length s > 0 then Inr (split (CHR '','') s) else Inl s)"

text \<open>Lines 131-147, 284-300, 411-427: the start and the end time. \<open>which\<close> is
  \<^verbatim>\<open>"start time: "\<close> or \<^verbatim>\<open>"end time: "\<close> of the error message.\<close>

definition construct_time :: "(string \<Rightarrow> utc option) \<Rightarrow> string \<Rightarrow> string \<Rightarrow> error + utc option" where
  "construct_time utc_of_string which s =
     (if length s > 0 then
        (case utc_of_string s of
           None \<Rightarrow> Inl (ParserError (''Cannot construct UTCDateTime from '' @ which @ s))
         | Some t \<Rightarrow> Inr (Some t))
      else Inr None)"

text \<open>Lines 149-157, 302-310: the user authentification.\<close>

definition parse_UserAuth :: "string \<Rightarrow> error + string list" where
  "parse_UserAuth s =
     (if \<not> length s = 0 then
        (let tt = split (CHR '':'') s in
         if \<not> length tt = 2 then
           Inl (ParserError ''Error: Incorrect Username and Password Strings for User Authentification'')
         else Inr tt)
      else Inr [])"

text \<open>Lines 164-174, 312-322: the local data directories and the no-data value.\<close>

definition parse_localdata :: "string option \<Rightarrow> string list" where
  "parse_localdata l = (case l of Some s \<Rightarrow> split (CHR '','') s | None \<Rightarrow> [])"

definition nodata_value :: "bool \<Rightarrow> sample" where
  "nodata_value b = (if b then Num 0 else NaN)"

definition get_options_OL_proc ::
  "(string \<Rightarrow> bool) \<Rightarrow> (string \<Rightarrow> utc option) \<Rightarrow> args_OL \<times> string list \<Rightarrow> error + (opts_OL \<times> string)" where
  "get_options_OL_proc exist utc_of_string parsed =
     (let (a, args) = parsed in
      if length args \<noteq> 1 then Inl (ParserError ''Need Data Folder'')
      else
        let indr = hd args in
        if \<not> exist indr then
          Inl (ParserError (''Input Data Folder '' @ indr @ '' does not exist''))
        else
          (case construct_time utc_of_string ''start time: '' (arg_startT a) of
             Inl e \<Rightarrow> Inl e
           | Inr st \<Rightarrow>
          (case construct_time utc_of_string ''end time: '' (arg_endT a) of
             Inl e \<Rightarrow> Inl e
           | Inr et \<Rightarrow>
               Inr (\<lparr>stkeys = station_keys (arg_stkeys a), startT = st, endT = et\<rparr>, indr))))"

definition get_options_prep_offline ::
  "(string \<Rightarrow> bool) \<Rightarrow> (string \<Rightarrow> utc option) \<Rightarrow> args_prep \<times> string list \<Rightarrow> error + (opts_prep \<times> string)" where
  "get_options_prep_offline exist utc_of_string parsed =
     (let (a, args) = parsed in
      if length args \<noteq> 1 then Inl (ParserError ''Need station database file'')
      else
        let indb = hd args in
        if \<not> exist indb then
          Inl (ParserError (''Input file '' @ indb @ '' does not exist''))
        else
          (case construct_time utc_of_string ''start time: '' (arg_startT a) of
             Inl e \<Rightarrow> Inl e
           | Inr st \<Rightarrow>
          (case construct_time utc_of_string ''end time: '' (arg_endT a) of
             Inl e \<Rightarrow> Inl e
           | Inr et \<Rightarrow>
          (case parse_UserAuth (arg_UserAuth a) of
             Inl e \<Rightarrow> Inl e
           | Inr ua \<Rightarrow>
               Inr (\<lparr>stkeys = station_keys (arg_stkeys a), startT = st, endT = et,
                     UserAuth = ua, localdata = parse_localdata (arg_localdata a),
                     ndval = nodata_value (arg_ndval a)\<rparr>, indb)))))"

text \<open>\<^verbatim>\<open>get_options\<close>; lines 159-162 reset both flags when both were given.\<close>

definition get_options ::
  "(string \<Rightarrow> bool) \<Rightarrow> (string \<Rightarrow> utc option) \<Rightarrow> args_OTF \<times> string list \<Rightarrow> error + (opts_OTF \<times> string)" where
  "get_options exist utc_of_string parsed =
     (let (a, args) = parsed in
      if length args \<noteq> 1 then Inl (ParserError ''Need station database file'')
      else
        let indb = hd args in
        if \<not> exist indb then
          Inl (ParserError (''Input file '' @ indb @ '' does not exist''))
        else
          (case construct_time utc_of_string ''start time: '' (arg_startT a) of
             Inl e \<Rightarrow> Inl e
           | Inr st \<Rightarrow>
          (case construct_time utc_of_string ''end time: '' (arg_endT a) of
             Inl e \<Rightarrow> Inl e
           | Inr et \<Rightarrow>
          (case parse_UserAuth (arg_UserAuth a) of
             Inl e \<Rightarrow> Inl e
           | Inr ua \<Rightarrow>
               let (sk, ov) = (if arg_skip a \<and> arg_ovr a then (False, False)
                               else (arg_skip a, arg_ovr a)) in
               Inr (\<lparr>stkeys = station_keys (arg_stkeys a), startT = st, endT = et,
                     UserAuth = ua, localdata = parse_localdata (arg_localdata a),
                     ndval = nodata_value (arg_ndval a), skip = sk, ovr = ov\<rparr>, indb)))))"

subsection \<open>Traces, streams and the library\<close>

text \<open>
  Of an ObsPy \<^verbatim>\<open>Trace\<close> the model keeps what the code reads: the channel code, the start
  and end time (as timestamps), the sample interval \<^verbatim>\<open>stats.delta\<close>, the SAC header
  field \<^verbatim>\<open>user9\<close> and the samples. The station and location codes of a trace only
  appear in printed messages. A \<^verbatim>\<open>Stream\<close> is the list of its traces.
\<close>

record trace =
  stats_channel :: string
  starttime :: real
  endtime :: real
  delta :: real
  user9 :: sample
  data :: "sample list"

type_synonym stream = "trace list"

text \<open>The station entry \<^verbatim>\<open>sta\<close> of the station database.\<close>

record stdb_entry =
  network :: string
  station :: string
  channel :: string
  location :: "string list"
  altnet :: "string list"

text \<open>The signal-processing calls of \<^verbatim>\<open>get_data_NEZ\<close>, with their arguments.\<close>

datatype proc =
    Detrend string
  | Lowpass real nat bool         \<comment> \<open>\<^verbatim>\<open>freq\<close>, \<^verbatim>\<open>corners\<close>, \<^verbatim>\<open>zerophase\<close>\<close>
  | Resample real
  | Bandpass real real nat bool   \<comment> \<open>\<^verbatim>\<open>freqmin\<close>, \<^verbatim>\<open>freqmax\<close>, \<^verbatim>\<open>corners\<close>, \<^verbatim>\<open>zerophase\<close>\<close>

text \<open>
  The library: \<^verbatim>\<open>obspy.read(file, format="SAC")\<close>, \<^verbatim>\<open>Stream.merge()\<close> and \<^verbatim>\<open>Stream.trim\<close>
  may raise; \<open>dsp\<close> is what a processing call (\<^verbatim>\<open>detrend\<close>, \<^verbatim>\<open>filter\<close>, \<^verbatim>\<open>resample\<close>) makes
  of one trace, the new trace or the exception it raises; \<open>utc_format_raises\<close> says whether
  formatting a \<^verbatim>\<open>UTCDateTime\<close> with the specification \<^verbatim>\<open>{:s}\<close> raises \<^verbatim>\<open>TypeError\<close>, as it
  does on Python 3 for an object without \<^verbatim>\<open>__format__\<close>, or prints, as on Python 2.
  The header field \<^verbatim>\<open>user9\<close> is taken to be present in \<^verbatim>\<open>stats.sac\<close>.
\<close>

record lib =
  read :: "string \<Rightarrow> error + stream"
  merge :: "stream \<Rightarrow> error + stream"
  trim :: "utc \<Rightarrow> utc \<Rightarrow> stream \<Rightarrow> error + stream"
  dsp :: "proc \<Rightarrow> trace \<Rightarrow> error + trace"
  utc_format_raises :: bool

text \<open>\<^verbatim>\<open>client.get_waveforms(network, station, location, channel, starttime, endtime)\<close>.\<close>

type_synonym client =
  "string \<Rightarrow> string \<Rightarrow> string \<Rightarrow> string \<Rightarrow> utc \<Rightarrow> utc \<Rightarrow> error + stream"

text \<open>The calls that leave the program, in the order they are made: a file read, a merge of
  a day-1 file with a day-2 file, a request to the client for one location code.\<close>

datatype event = EvRead string | EvMerge string string | EvQuery string

text \<open>The state of the local variable \<^verbatim>\<open>st\<close> of \<^verbatim>\<open>get_data_NEZ\<close>.\<close>

datatype 'a pyvar = Unbound | PyNone | Value 'a

text \<open>\<^verbatim>\<open>stream[0]\<close>, \<^verbatim>\<open>stream.select(component=c)\<close> (the last character of the channel code,
  compared without case), and the truth value of a trace: a trace without samples is false.\<close>

definition item0 :: "stream \<Rightarrow> error + trace" where
  "item0 st = (case st of [] \<Rightarrow> Inl IndexError | tr # _ \<Rightarrow> Inr tr)"

definition component :: "trace \<Rightarrow> string" where
  "component tr = (if stats_channel tr = [] then [] else [last (stats_channel tr)])"

definition select :: "string \<Rightarrow> stream \<Rightarrow> stream" where
  "select c st = filter (\<lambda>tr. upper (component tr) = upper c) st"

definition truthy :: "trace \<Rightarrow> bool" where
  "truthy tr = (length (data tr) \<noteq> 0)"

subsection \<open>\<^verbatim>\<open>parse_localdata_for_comp\<close>\<close>

text \<open>The two file name patterns (lines 457 and 462).\<close>

definition format1 :: "string \<Rightarrow> string \<Rightarrow> string \<Rightarrow> string \<Rightarrow> string \<Rightarrow> string \<Rightarrow> string" where
  "format1 yr jd net stn chn cmp =
     ''*/'' @ pad 4 yr @ ''.'' @ pad 3 jd @ ''.'' @ net @ ''.'' @ stn @ ''.*.''
       @ pad 2 chn @ pad 1 cmp @ ''.SAC''"

definition format2 :: "string \<Rightarrow> string \<Rightarrow> string \<Rightarrow> string \<Rightarrow> string \<Rightarrow> string" where
  "format2 yr jd net stn cmp =
     ''*/'' @ pad 4 yr @ ''.'' @ pad 3 jd @ ''.'' @ net @ ''.'' @ stn @ ''.*.*''
       @ pad 1 cmp @ ''.SAC''"

text \<open>Lines 456-478: the files of the single-day case. The last stage loops over
  \<^verbatim>\<open>sta.altnet\<close> and formats the pattern with \<^verbatim>\<open>sta.network\<close>.\<close>

definition lclfiles_single :: "string list \<Rightarrow> stdb_entry \<Rightarrow> string \<Rightarrow> string \<Rightarrow> string \<Rightarrow> string list" where
  "lclfiles_single stdata sta cmp yr jd =
     (let l1 = fnmatch_filter stdata
                 (format1 yr jd (upper (network sta)) (upper (station sta))
                    (take 2 (upper (channel sta))) (upper cmp));
          l2 = (if length l1 = 0 then
                  fnmatch_filter stdata
                    (format2 yr jd (upper (network sta)) (upper (station sta)) (upper cmp))
                else l1);
          l3 = (if length l2 = 0 then
                  concat (map (\<lambda>anet. fnmatch_filter stdata
                    (format1 yr jd (upper anet) (upper (station sta))
                       (take 2 (upper (channel sta))) (upper cmp))) (altnet sta))
                else l2);
          l4 = (if length l3 = 0 then
                  concat (map (\<lambda>anet. fnmatch_filter stdata
                    (format2 yr jd (upper (network sta)) (upper (station sta)) (upper cmp)))
                    (altnet sta))
                else l3)
      in l4)"

text \<open>Lines 526-546 for day 1 and 548-568 for day 2: the files of one day in the two-day
  case. Here the last stage formats the pattern with the alternate network code.\<close>

definition lclfiles_day :: "string list \<Rightarrow> stdb_entry \<Rightarrow> string \<Rightarrow> string \<Rightarrow> string \<Rightarrow> string list" where
  "lclfiles_day stdata sta cmp yr jd =
     (let l1 = fnmatch_filter stdata
                 (format1 yr jd (upper (network sta)) (upper (station sta))
                    (take 2 (upper (channel sta))) (upper cmp));
          l2 = (if length l1 = 0 then
                  fnmatch_filter stdata
                    (format2 yr jd (upper (network sta)) (upper (station sta)) (upper cmp))
                else l1);
          l3 = (if length l2 = 0 then
                  concat (map (\<lambda>anet. fnmatch_filter stdata
                    (format1 yr jd (upper anet) (upper (station sta))
                       (take 2 (upper (channel sta))) (upper cmp))) (altnet sta))
                else l2);
          l4 = (if length l3 = 0 then
                  concat (map (\<lambda>anet. fnmatch_filter stdata
                    (format2 yr jd (upper anet) (upper (station sta)) (upper cmp)))
                    (altnet sta))
                else l3)
      in l4)"

text \<open>Lines 495-500 and 586-596: samples equal to the no-data value of the header are
  replaced by \<open>ndv\<close>, unless the header value is \<open>0.0\<close> or \<open>-12345.0\<close>.\<close>

definition nodata_convert :: "sample \<Rightarrow> trace \<Rightarrow> trace" where
  "nodata_convert ndv tr =
     (let stnd = user9 tr in
      if (\<not> feq stnd (Num 0)) \<and> (\<not> feq stnd (Num (- 12345))) then
        tr\<lparr>data := map (\<lambda>x. if feq x stnd then ndv else x) (data tr)\<rparr>
      else tr)"

text \<open>Lines 486-521: the loop over the files of the single-day case. The result is
  \<open>Inr (Some r)\<close> when the loop returns \<open>r\<close>, \<open>Inr None\<close> when it runs to its end and
  \<open>Inl e\<close> when a call raises (nothing here is inside a \<^verbatim>\<open>try\<close>).\<close>

fun process_files ::
  "lib \<Rightarrow> utc \<Rightarrow> utc \<Rightarrow> sample \<Rightarrow> string list \<Rightarrow> event list \<times> (error + (bool \<times> stream option) option)" where
  "process_files lb tstart tend ndv [] = ([], Inr None)"
| "process_files lb tstart tend ndv (sacfile # rest) =
     (case read lb sacfile of
        Inl e \<Rightarrow> ([EvRead sacfile], Inl e)
      | Inr st \<Rightarrow>
          if length st \<noteq> 1 then
            (let (evs, r) = process_files lb tstart tend ndv rest in (EvRead sacfile # evs, r))
          else
            (let tr = nodata_convert ndv (hd st) in
             if starttime tr \<le> timestamp tstart \<and> endtime tr \<ge> timestamp tend then
               (case trim lb tstart tend [tr] of
                  Inl e \<Rightarrow> ([EvRead sacfile], Inl e)
                | Inr st' \<Rightarrow>
                    (case item0 st' of
                       Inl e \<Rightarrow> ([EvRead sacfile], Inl e)
                     | Inr tr' \<Rightarrow>
                         if True \<in> set (map isnan (data tr')) then
                           (let (evs, r) = process_files lb tstart tend ndv rest
                            in (EvRead sacfile # evs, r))
                         else ([EvRead sacfile], Inr (Some (False, Some st')))))
             else
               (let (evs, r) = process_files lb tstart tend ndv rest
                in (EvRead sacfile # evs, r))))"

text \<open>Lines 598-629: the \<^verbatim>\<open>try\<close> block of the two-day case on the joined stream
  \<^verbatim>\<open>st1 + st2\<close>. \<open>Some st\<close> is the stream it returns; \<open>None\<close> means that the block ends
  without returning, also when an exception was caught by \<^verbatim>\<open>except: pass\<close>.\<close>

definition try_merge :: "lib \<Rightarrow> utc \<Rightarrow> utc \<Rightarrow> stream \<Rightarrow> stream option" where
  "try_merge lb tstart tend st =
     (case merge lb st of
        Inl e \<Rightarrow> None
      | Inr m \<Rightarrow>
          if length m \<noteq> 1 then None
          else if starttime (hd m) \<le> timestamp tstart \<and> endtime (hd m) \<ge> timestamp tend then
            (case trim lb tstart tend m of
               Inl e \<Rightarrow> None
             | Inr t \<Rightarrow>
                 (case item0 t of
                    Inl e \<Rightarrow> None
                  | Inr tr \<Rightarrow> if True \<in> set (map isnan (data tr)) then None else Some t))
          else None)"

text \<open>Lines 581-632: the loop over the day-2 files for one day-1 file \<open>sacf1\<close>, read
  as \<open>st1\<close>. The source replaces the no-data samples of \<open>st1\<close> in place, so a later
  pass of the loop meets the replaced samples; replacing them again changes nothing
  (\<open>nodata_convert_idem\<close>), and the model converts the trace as read in every pass. The
  message of the \<^verbatim>\<open>else\<close> branch formats two \<^verbatim>\<open>UTCDateTime\<close> objects with \<^verbatim>\<open>{:s}\<close>.\<close>

fun merge_inner ::
  "lib \<Rightarrow> utc \<Rightarrow> utc \<Rightarrow> sample \<Rightarrow> string \<Rightarrow> stream \<Rightarrow> string list
     \<Rightarrow> event list \<times> (error + (bool \<times> stream option) option)" where
  "merge_inner lb tstart tend ndv sacf1 st1 [] = ([], Inr None)"
| "merge_inner lb tstart tend ndv sacf1 st1 (sacf2 # rest) =
     (case read lb sacf2 of
        Inl e \<Rightarrow> ([EvRead sacf2], Inl e)
      | Inr st2 \<Rightarrow>
          (case st1 of
             [] \<Rightarrow> ([EvRead sacf2], Inl IndexError)
           | tr1 # r1 \<Rightarrow>
          (case st2 of
             [] \<Rightarrow> ([EvRead sacf2], Inl IndexError)
           | tr2 # r2 \<Rightarrow>
               if endtime tr1 \<ge> starttime tr2 - delta tr2 then
                 (case try_merge lb tstart tend
                         ((nodata_convert ndv tr1 # r1) @ (nodata_convert ndv tr2 # r2)) of
                    Some st \<Rightarrow> ([EvRead sacf2, EvMerge sacf1 sacf2], Inr (Some (False, Some st)))
                  | None \<Rightarrow>
                      (let (evs, r) = merge_inner lb tstart tend ndv sacf1 st1 rest
                       in (EvRead sacf2 # EvMerge sacf1 sacf2 # evs, r)))
               else if utc_format_raises lb then ([EvRead sacf2], Inl TypeError)
               else
                 (let (evs, r) = merge_inner lb tstart tend ndv sacf1 st1 rest
                  in (EvRead sacf2 # evs, r)))))"

text \<open>Lines 578-632: the loop over the day-1 files.\<close>

fun merge_outer ::
  "lib \<Rightarrow> utc \<Rightarrow> utc \<Rightarrow> sample \<Rightarrow> string list \<Rightarrow> string list
     \<Rightarrow> event list \<times> (error + (bool \<times> stream option) option)" where
  "merge_outer lb tstart tend ndv [] lclfiles2 = ([], Inr None)"
| "merge_outer lb tstart tend ndv (sacf1 # rest) lclfiles2 =
     (case read lb sacf1 of
        Inl e \<Rightarrow> ([EvRead sacf1], Inl e)
      | Inr st1 \<Rightarrow>
          (case merge_inner lb tstart tend ndv sacf1 st1 lclfiles2 of
             (evs, Inl e) \<Rightarrow> (EvRead sacf1 # evs, Inl e)
           | (evs, Inr (Some r)) \<Rightarrow> (EvRead sacf1 # evs, Inr (Some r))
           | (evs, Inr None) \<Rightarrow>
               (let (evs', r) = merge_outer lb tstart tend ndv rest lclfiles2
                in (EvRead sacf1 # evs @ evs', r))))"

text \<open>A loop that ran to its end reaches lines 634-636 and returns \<^verbatim>\<open>(True, None)\<close>.\<close>

definition data_unavailable ::
  "event list \<times> (error + (bool \<times> stream option) option) \<Rightarrow> event list \<times> (error + bool \<times> stream option)" where
  "data_unavailable res =
     (case res of
        (evs, Inl e) \<Rightarrow> (evs, Inl e)
      | (evs, Inr (Some r)) \<Rightarrow> (evs, Inr r)
      | (evs, Inr None) \<Rightarrow> (evs, Inr (True, None)))"

definition single_day ::
  "lib \<Rightarrow> string \<Rightarrow> string list \<Rightarrow> stdb_entry \<Rightarrow> utc \<Rightarrow> utc \<Rightarrow> sample
     \<Rightarrow> event list \<times> (error + bool \<times> stream option)" where
  "single_day lb cmp stdata sta tstart tend ndv =
     (let lclfiles = lclfiles_single stdata sta cmp (strftime_Y tstart) (strftime_j tstart) in
      if length lclfiles = 0 then ([], Inr (True, None))
      else data_unavailable (process_files lb tstart tend ndv lclfiles))"

definition two_days ::
  "lib \<Rightarrow> string \<Rightarrow> string list \<Rightarrow> stdb_entry \<Rightarrow> utc \<Rightarrow> utc \<Rightarrow> sample
     \<Rightarrow> event list \<times> (error + bool \<times> stream option)" where
  "two_days lb cmp stdata sta tstart tend ndv =
     (let lclfiles1 = lclfiles_day stdata sta cmp (strftime_Y tstart) (strftime_j tstart);
          lclfiles2 = lclfiles_day stdata sta cmp (strftime_Y tend) (strftime_j tend) in
      if length lclfiles1 = 0 \<and> length lclfiles2 = 0 then ([], Inr (True, None))
      else if length lclfiles1 > 0 \<and> length lclfiles2 > 0 then
        data_unavailable (merge_outer lb tstart tend ndv lclfiles1 lclfiles2)
      else ([], Inr (True, None)))"

text \<open>Line 455 chooses between the two cases by comparing \<^verbatim>\<open>start.strftime("%j")\<close> with
  \<^verbatim>\<open>end.strftime("%j")\<close>.\<close>

definition parse_localdata_for_comp ::
  "lib \<Rightarrow> string \<Rightarrow> string list \<Rightarrow> stdb_entry \<Rightarrow> utc \<Rightarrow> utc \<Rightarrow> sample
     \<Rightarrow> event list \<times> (error + bool \<times> stream option)" where
  "parse_localdata_for_comp lb cmp stdata sta tstart tend ndv =
     (let stjd = strftime_j tstart; edjd = strftime_j tend in
      if stjd = edjd then single_day lb cmp stdata sta tstart tend ndv
      else two_days lb cmp stdata sta tstart tend ndv)"

subsection \<open>\<^verbatim>\<open>get_data_NEZ\<close>\<close>

text \<open>Lines 662-675: the search on disk. The result is the flag \<^verbatim>\<open>erd\<close> and the state of
  the variable \<^verbatim>\<open>st\<close>, which is assigned only when all three components were found.
  \<^verbatim>\<open>stZ + stN + stE\<close> on a \<^verbatim>\<open>None\<close> would raise \<^verbatim>\<open>TypeError\<close>.\<close>

definition local_data ::
  "lib \<Rightarrow> stdb_entry \<Rightarrow> utc \<Rightarrow> utc \<Rightarrow> string list \<Rightarrow> sample
     \<Rightarrow> event list \<times> (error + bool \<times> stream pyvar)" where
  "local_data lb sta tstart tend stdata ndv =
     (if length stdata > 0 then
        (case parse_localdata_for_comp lb ''Z'' stdata sta tstart tend ndv of
           (evZ, Inl e) \<Rightarrow> (evZ, Inl e)
         | (evZ, Inr (errZ, stZ)) \<Rightarrow>
        (case parse_localdata_for_comp lb ''N'' stdata sta tstart tend ndv of
           (evN, Inl e) \<Rightarrow> (evZ @ evN, Inl e)
         | (evN, Inr (errN, stN)) \<Rightarrow>
        (case parse_localdata_for_comp lb ''E'' stdata sta tstart tend ndv of
           (evE, Inl e) \<Rightarrow> (evZ @ evN @ evE, Inl e)
         | (evE, Inr (errE, stE)) \<Rightarrow>
             (let erd = (errZ \<or> errN \<or> errE) in
              if \<not> erd then
                (case (stZ, stN, stE) of
                   (Some z, Some n, Some e) \<Rightarrow> (evZ @ evN @ evE, Inr (erd, Value (z @ n @ e)))
                 | _ \<Rightarrow> (evZ @ evN @ evE, Inl TypeError))
              else (evZ @ evN @ evE, Inr (erd, Unbound))))))
      else ([], Inr (True, Unbound)))"

text \<open>Lines 681-705: the loop over the location codes. Each pass assigns \<^verbatim>\<open>st\<close>: the
  stream when the client returned three traces, \<^verbatim>\<open>None\<close> when it returned another
  number of traces or raised. The loop stops at the first success.\<close>

fun request_loop ::
  "client \<Rightarrow> stdb_entry \<Rightarrow> utc \<Rightarrow> utc \<Rightarrow> string list \<Rightarrow> stream pyvar
     \<Rightarrow> event list \<times> stream pyvar" where
  "request_loop cl sta tstart tend [] st = ([], st)"
| "request_loop cl sta tstart tend (loc # locs) st =
     (let channels = upper (channel sta) @ ''E,'' @ upper (channel sta) @ ''N,''
                       @ upper (channel sta) @ ''Z'';
          (erd, st') = (case cl (network sta) (station sta) loc channels tstart tend of
                          Inr s \<Rightarrow> if length s = 3 then (False, Value s) else (True, PyNone)
                        | Inl e \<Rightarrow> (True, PyNone))
      in if \<not> erd then ([EvQuery loc], st')
         else (let (evs, st'') = request_loop cl sta tstart tend locs st'
               in (EvQuery loc # evs, st'')))"

text \<open>Line 713: the condition of the \<^verbatim>\<open>elif\<close>, evaluated from left to right. The first
  and the third operand index the selected stream; the second one, written
  \<^verbatim>\<open>st.select(component='E'[0])\<close>, tests the selected stream itself.\<close>

definition components_missing :: "stream \<Rightarrow> error + bool" where
  "components_missing st =
     (case item0 (select ''Z'' st) of
        Inl e \<Rightarrow> Inl e
      | Inr z \<Rightarrow>
          if \<not> truthy z then Inr True
          else if select ''E'' st = [] then Inr True
          else (case item0 (select ''N'' st) of
                  Inl e \<Rightarrow> Inl e
                | Inr n \<Rightarrow> Inr (\<not> truthy n)))"

text \<open>Lines 714-719: the messages of the error branch index the three selected streams
  before the error result is returned.\<close>

definition report_missing ::
  "stream \<Rightarrow> error + bool \<times> trace option \<times> trace option \<times> trace option" where
  "report_missing st =
     (case item0 (select ''Z'' st) of
        Inl e \<Rightarrow> Inl e
      | Inr z \<Rightarrow>
     (case item0 (select ''E'' st) of
        Inl e \<Rightarrow> Inl e
      | Inr e \<Rightarrow>
     (case item0 (select ''N'' st) of
        Inl e \<Rightarrow> Inl e
      | Inr n \<Rightarrow> Inr (True, None, None, None))))"

text \<open>Lines 724-728: the three lengths; \<^verbatim>\<open>ll2\<close> is read from the Z component.\<close>

definition trace_lengths :: "stream \<Rightarrow> error + nat \<times> nat \<times> nat" where
  "trace_lengths st =
     (case item0 (select ''Z'' st) of
        Inl e \<Rightarrow> Inl e
      | Inr z0 \<Rightarrow>
     (case item0 (select ''E'' st) of
        Inl e \<Rightarrow> Inl e
      | Inr e0 \<Rightarrow>
     (case item0 (select ''Z'' st) of
        Inl e \<Rightarrow> Inl e
      | Inr z2 \<Rightarrow> Inr (length (data z0), length (data e0), length (data z2)))))"

text \<open>A processing call on one trace changes the samples and the sampling, not the channel
  code, or raises.\<close>

definition step :: "lib \<Rightarrow> proc \<Rightarrow> trace \<Rightarrow> error + trace" where
  "step lb p tr =
     (case dsp lb p tr of
        Inl e \<Rightarrow> Inl e
      | Inr tr' \<Rightarrow> Inr (tr'\<lparr>stats_channel := stats_channel tr\<rparr>))"

text \<open>A processing call on the stream works on its traces in place, one after the other;
  the first exception ends the call.\<close>

fun apply_proc :: "lib \<Rightarrow> proc \<Rightarrow> stream \<Rightarrow> error + stream" where
  "apply_proc lb p [] = Inr []"
| "apply_proc lb p (tr # rest) =
     (case step lb p tr of
        Inl e \<Rightarrow> Inl e
      | Inr tr' \<Rightarrow>
          (case apply_proc lb p rest of
             Inl e \<Rightarrow> Inl e
           | Inr rest' \<Rightarrow> Inr (tr' # rest')))"

text \<open>Lines 733-739: the five calls, none of them inside a \<^verbatim>\<open>try\<close>.\<close>

definition process :: "lib \<Rightarrow> stream \<Rightarrow> error + stream" where
  "process lb st =
     (case apply_proc lb (Detrend ''demean'') st of
        Inl e \<Rightarrow> Inl e
      | Inr st1 \<Rightarrow>
     (case apply_proc lb (Detrend ''linear'') st1 of
        Inl e \<Rightarrow> Inl e
      | Inr st2 \<Rightarrow>
     (case apply_proc lb (Lowpass (0.5 * 5.0) 2 True) st2 of
        Inl e \<Rightarrow> Inl e
      | Inr st3 \<Rightarrow>
     (case apply_proc lb (Resample 5.0) st3 of
        Inl e \<Rightarrow> Inl e
      | Inr st4 \<Rightarrow> apply_proc lb (Bandpass 0.01 0.25 2 True) st4))))"

text \<open>Lines 741-747.\<close>

definition extract_traces ::
  "stream \<Rightarrow> error + bool \<times> trace option \<times> trace option \<times> trace option" where
  "extract_traces st =
     (case item0 (select ''E'' st) of
        Inl e \<Rightarrow> Inl e
      | Inr trE \<Rightarrow>
     (case item0 (select ''N'' st) of
        Inl e \<Rightarrow> Inl e
      | Inr trN \<Rightarrow>
     (case item0 (select ''Z'' st) of
        Inl e \<Rightarrow> Inl e
      | Inr trZ \<Rightarrow> Inr (False, Some trN, Some trE, Some trZ))))"

text \<open>Lines 708-747 on the value of \<^verbatim>\<open>st\<close>.\<close>

definition check_and_process ::
  "lib \<Rightarrow> stream pyvar \<Rightarrow> error + bool \<times> trace option \<times> trace option \<times> trace option" where
  "check_and_process lb v =
     (case v of
        Unbound \<Rightarrow> Inl UnboundLocalError
      | PyNone \<Rightarrow> Inr (True, None, None, None)
      | Value st \<Rightarrow>
          (case components_missing st of
             Inl e \<Rightarrow> Inl e
           | Inr True \<Rightarrow> report_missing st
           | Inr False \<Rightarrow>
               (case trace_lengths st of
                  Inl e \<Rightarrow> Inl e
                | Inr (ll0, ll1, ll2) \<Rightarrow>
                    if \<not> (ll0 = ll1 \<and> ll0 = ll2) then Inr (True, None, None, None)
                    else (case process lb st of
                            Inl e \<Rightarrow> Inl e
                          | Inr st' \<Rightarrow> extract_traces st'))))"

text \<open>Lines 662-705: what \<^verbatim>\<open>st\<close> holds when line 708 is reached. The client is asked
  only when \<^verbatim>\<open>erd\<close> is still true after the search on disk.\<close>

definition acquire ::
  "lib \<Rightarrow> client \<Rightarrow> stdb_entry \<Rightarrow> utc \<Rightarrow> utc \<Rightarrow> string list \<Rightarrow> sample
     \<Rightarrow> event list \<times> (error + stream pyvar)" where
  "acquire lb cl sta tstart tend stdata ndv =
     (case local_data lb sta tstart tend stdata ndv of
        (evs, Inl e) \<Rightarrow> (evs, Inl e)
      | (evs, Inr (erd, st)) \<Rightarrow>
          (let (evs', st') = (if erd then request_loop cl sta tstart tend (location sta) st
                              else ([], st))
           in (evs @ evs', Inr st')))"

definition get_data_NEZ ::
  "lib \<Rightarrow> client \<Rightarrow> stdb_entry \<Rightarrow> utc \<Rightarrow> utc \<Rightarrow> string list \<Rightarrow> sample
     \<Rightarrow> event list \<times> (error + bool \<times> trace option \<times> trace option \<times> trace option)" where
  "get_data_NEZ lb cl sta tstart tend stdata ndv =
     (case acquire lb cl sta tstart tend stdata ndv of
        (evs, Inl e) \<Rightarrow> (evs, Inl e)
      | (evs, Inr v) \<Rightarrow> (evs, check_and_process lb v))"

subsection \<open>Notions used in the statements\<close>

text \<open>What the returned start and end time are, given the two option strings: \<open>None\<close>
  for an empty string, the constructed \<^verbatim>\<open>UTCDateTime\<close> otherwise.\<close>

definition times_as_parsed ::
  "(string \<Rightarrow> utc option) \<Rightarrow> string \<Rightarrow> string \<Rightarrow> utc option \<Rightarrow> utc option \<Rightarrow> bool" where
  "times_as_parsed u s e st et =
     ((if s = [] then st = None else st \<noteq> None \<and> st = u s)
      \<and> (if e = [] then et = None else et \<noteq> None \<and> et = u e))"

text \<open>Each of the two strings is empty or can be made a \<^verbatim>\<open>UTCDateTime\<close>.\<close>

definition times_parse :: "(string \<Rightarrow> utc option) \<Rightarrow> string \<Rightarrow> string \<Rightarrow> bool" where
  "times_parse u s e = ((s = [] \<or> u s \<noteq> None) \<and> (e = [] \<or> u e \<noteq> None))"

definition UserAuth_ok :: "string \<Rightarrow> bool" where
  "UserAuth_ok s = (s = [] \<or> length (split (CHR '':'') s) = 2)"

text \<open>Sample command lines: a date parser that knows two dates, and options whose end
  time is the day before the start time.\<close>

definition sample_dates :: "string \<Rightarrow> utc option" where
  "sample_dates s =
     (if s = ''2015-01-02'' then Some \<lparr>year = 2015, julday = 2, sod = 0\<rparr>
      else if s = ''2015-01-01'' then Some \<lparr>year = 2015, julday = 1, sod = 0\<rparr>
      else None)"

definition sample_args_OL :: args_OL where
  "sample_args_OL = \<lparr>arg_stkeys = ''IU'', arg_startT = ''2015-01-02'', arg_endT = ''2015-01-01''\<rparr>"

definition sample_args_prep :: args_prep where
  "sample_args_prep =
     \<lparr>arg_stkeys = ''IU'', arg_startT = ''2015-01-02'', arg_endT = ''2015-01-01'',
      arg_UserAuth = ''me:pw'', arg_localdata = None, arg_ndval = False\<rparr>"

definition sample_args_OTF :: "bool \<Rightarrow> bool \<Rightarrow> args_OTF" where
  "sample_args_OTF sk ov =
     \<lparr>arg_stkeys = ''IU'', arg_startT = ''2015-01-02'', arg_endT = ''2015-01-01'',
      arg_UserAuth = ''me:pw'', arg_localdata = None, arg_ndval = False,
      arg_skip = sk, arg_ovr = ov\<rparr>"

text \<open>One trace after the five processing calls of lines 733-739, in their order: the
  mean removed, the linear trend removed, low-pass filtered at 2.5 Hz, resampled to 5 Hz,
  band-pass filtered between 0.01 and 0.25 Hz; or the exception of the first call that
  raises on it.\<close>

definition processed :: "lib \<Rightarrow> trace \<Rightarrow> error + trace" where
  "processed lb tr =
     (case step lb (Detrend ''demean'') tr of
        Inl e \<Rightarrow> Inl e
      | Inr t1 \<Rightarrow>
     (case step lb (Detrend ''linear'') t1 of
        Inl e \<Rightarrow> Inl e
      | Inr t2 \<Rightarrow>
     (case step lb (Lowpass 2.5 2 True) t2 of
        Inl e \<Rightarrow> Inl e
      | Inr t3 \<Rightarrow>
     (case step lb (Resample 5) t3 of
        Inl e \<Rightarrow> Inl e
      | Inr t4 \<Rightarrow> step lb (Bandpass 0.01 0.25 2 True) t4))))"

text \<open>The three calls of \<^verbatim>\<open>parse_localdata_for_comp\<close> made by \<^verbatim>\<open>get_data_NEZ\<close>.\<close>

definition local_Z where
  "local_Z lb sta tstart tend stdata ndv = parse_localdata_for_comp lb ''Z'' stdata sta tstart tend ndv"

definition local_N where
  "local_N lb sta tstart tend stdata ndv = parse_localdata_for_comp lb ''N'' stdata sta tstart tend ndv"

definition local_E where
  "local_E lb sta tstart tend stdata ndv = parse_localdata_for_comp lb ''E'' stdata sta tstart tend ndv"

text \<open>A request to the client among the events.\<close>

fun is_query :: "event \<Rightarrow> bool" where
  "is_query (EvQuery loc) = True"
| "is_query _ = False"

text \<open>The overlap test of line 585 on the first traces of a day-1 and a day-2 file.\<close>

definition overlap :: "lib \<Rightarrow> string \<Rightarrow> string \<Rightarrow> bool" where
  "overlap lb f1 f2 =
     (case (read lb f1, read lb f2) of
        (Inr (tr1 # r1), Inr (tr2 # r2)) \<Rightarrow> endtime tr1 \<ge> starttime tr2 - delta tr2
      | _ \<Rightarrow> False)"

text \<open>\<open>st\<close> is what the two files \<open>f1\<close> and \<open>f2\<close> give: they merge into a single trace
  that starts at or before \<open>tstart\<close> and ends at or after \<open>tend\<close>, and \<open>st\<close> is this
  stream trimmed to the window.\<close>

definition merged_from :: "lib \<Rightarrow> utc \<Rightarrow> utc \<Rightarrow> sample \<Rightarrow> string \<Rightarrow> string \<Rightarrow> stream \<Rightarrow> bool" where
  "merged_from lb tstart tend ndv f1 f2 st =
     (case (read lb f1, read lb f2) of
        (Inr (tr1 # r1), Inr (tr2 # r2)) \<Rightarrow>
          (case merge lb ((nodata_convert ndv tr1 # r1) @ (nodata_convert ndv tr2 # r2)) of
             Inr [m] \<Rightarrow> starttime m \<le> timestamp tstart \<and> endtime m \<ge> timestamp tend
                        \<and> trim lb tstart tend [m] = Inr st
           | _ \<Rightarrow> False)
      | _ \<Rightarrow> False)"

subsection \<open>A sample disk, library and client\<close>

text \<open>Day-long traces sampled at 20 Hz, with two samples kept; the disk holds files of
  station \<^verbatim>\<open>CN.STA\<close> for the first two days of 2015 and the first day of 2016, and one
  file named after the alternate network \<^verbatim>\<open>PO\<close> with another channel code.\<close>

definition day_trace :: "string \<Rightarrow> real \<Rightarrow> trace" where
  "day_trace ch t0 =
     \<lparr>stats_channel = ch, starttime = t0, endtime = t0 + 86399.95, delta = 0.05,
      user9 = Num 0, data = [Num 1, Num 2]\<rparr>"

definition sample_disk :: "(string \<times> stream) list" where
  "sample_disk =
     [(''/data/2015.001.CN.STA..BHZ.SAC'', [day_trace ''BHZ'' 1420070400]),
      (''/data/2015.001.CN.STA..BHN.SAC'', [day_trace ''BHN'' 1420070400]),
      (''/data/2015.001.CN.STA..BHE.SAC'', [day_trace ''BHE'' 1420070400]),
      (''/data/2015.002.CN.STA..BHZ.SAC'', [day_trace ''BHZ'' 1420156800]),
      (''/data/2016.001.CN.STA..BHZ.SAC'', [day_trace ''BHZ'' 1451606400]),
      (''/data/2015.001.PO.STA..HHZ.SAC'', [day_trace ''HHZ'' 1420070400])]"

text \<open>The sample library reads the sample disk, merges two traces into one that spans
  both and leaves a stream as it is when trimming. Of the processing calls, the low-pass
  filter raises \<^verbatim>\<open>ValueError\<close> when its corner frequency is at or above the Nyquist
  frequency of the trace, as ObsPy's does, and leaves the trace as it is otherwise;
  resampling sets the sample interval; the other calls leave the trace as it is.\<close>

definition sample_dsp :: "proc \<Rightarrow> trace \<Rightarrow> error + trace" where
  "sample_dsp p tr =
     (case p of
        Detrend ty \<Rightarrow> Inr tr
      | Lowpass freq corners zerophase \<Rightarrow>
          if freq * (2 * delta tr) \<ge> 1 then Inl (LibError ''ValueError'') else Inr tr
      | Resample rate \<Rightarrow> Inr (tr\<lparr>delta := 1 / rate\<rparr>)
      | Bandpass fmin fmax corners zerophase \<Rightarrow> Inr tr)"

definition sample_merge :: "stream \<Rightarrow> error + stream" where
  "sample_merge st =
     (case st of
        [a, b] \<Rightarrow> Inr [a\<lparr>endtime := endtime b, data := data a @ data b\<rparr>]
      | _ \<Rightarrow> Inr st)"

definition sample_lib :: lib where
  "sample_lib =
     \<lparr>read = (\<lambda>f. case map_of sample_disk f of
                     None \<Rightarrow> Inl (LibError ''cannot read'') | Some st \<Rightarrow> Inr st),
      merge = sample_merge,
      trim = (\<lambda>t1 t2 st. Inr st),
      dsp = sample_dsp,
      utc_format_raises = True\<rparr>"

definition sample_sta :: "string list \<Rightarrow> stdb_entry" where
  "sample_sta locs =
     \<lparr>network = ''CN'', station = ''STA'', channel = ''BH'', location = locs, altnet = [''PO'']\<rparr>"

text \<open>Short traces of \<open>n\<close> samples with the sample interval \<open>dt\<close>, and clients: one that
  answers at 20 Hz with an E and a Z trace of 40 samples and an N trace of 39 samples, one
  whose three traces are two Z traces and an N trace, one that answers with three traces
  of 40 samples at 20 Hz, one that answers with three traces of 40 samples at 1 Hz, and
  one that always raises.\<close>

definition short_trace :: "string \<Rightarrow> real \<Rightarrow> nat \<Rightarrow> trace" where
  "short_trace ch dt n =
     \<lparr>stats_channel = ch, starttime = 1420070400, endtime = 1420070400 + dt * (real n - 1),
      delta = dt, user9 = Num 0, data = replicate n (Num 1)\<rparr>"

definition client_short_N :: client where
  "client_short_N net stn loc chans t1 t2 =
     Inr [short_trace ''BHE'' 0.05 40, short_trace ''BHN'' 0.05 39, short_trace ''BHZ'' 0.05 40]"

definition client_no_E :: client where
  "client_no_E net stn loc chans t1 t2 =
     Inr [short_trace ''BHZ'' 0.05 40, short_trace ''BHZ'' 0.05 40, short_trace ''BHN'' 0.05 40]"

definition client_20Hz :: client where
  "client_20Hz net stn loc chans t1 t2 =
     Inr [short_trace ''BHE'' 0.05 40, short_trace ''BHN'' 0.05 40, short_trace ''BHZ'' 0.05 40]"

definition client_1Hz :: client where
  "client_1Hz net stn loc chans t1 t2 =
     Inr [short_trace ''BHE'' 1 40, short_trace ''BHN'' 1 40, short_trace ''BHZ'' 1 40]"

definition client_down :: client where
  "client_down net stn loc chans t1 t2 = Inl (LibError ''no data'')"

text \<open>The list of local files, and request windows: ten seconds within the first day of
  2015, a window from that day into the next, and a window that ends on the first day
  of 2016.\<close>

definition sample_stdata :: "string list" where
  "sample_stdata = map fst sample_disk"

definition day1_start :: utc where
  "day1_start = \<lparr>year = 2015, julday = 1, sod = 10\<rparr>"

definition day1_end :: utc where
  "day1_end = \<lparr>year = 2015, julday = 1, sod = 20\<rparr>"

definition day1_late :: utc where
  "day1_late = \<lparr>year = 2015, julday = 1, sod = 86390\<rparr>"

definition day2_end :: utc where
  "day2_end = \<lparr>year = 2015, julday = 2, sod = 20\<rparr>"

definition next_year_end :: utc where
  "next_year_end = \<lparr>year = 2016, julday = 1, sod = 20\<rparr>"

section \<open>Properties\<close>

subsection \<open>The option functions\<close>

lemma construct_time_Inr:
  "construct_time u w s = Inr r \<Longrightarrow> (if s = [] then r = None else r \<noteq> None \<and> r = u s)"
  unfolding construct_time_def
  by (cases "u s"; cases "s = []"; fastforce)

lemma construct_time_ok:
  "(\<exists>r. construct_time u w s = Inr r) \<longleftrightarrow> (s = [] \<or> u s \<noteq> None)"
  by (auto simp: construct_time_def split: if_splits option.splits)

lemma parse_UserAuth_ok:
  "(\<exists>r. parse_UserAuth s = Inr r) \<longleftrightarrow> UserAuth_ok s"
  by (auto simp: parse_UserAuth_def UserAuth_ok_def Let_def)

lemma OL_times:
  "get_options_OL_proc exist u (a, args) = Inr (opts, d)
     \<Longrightarrow> times_as_parsed u (arg_startT a) (arg_endT a) (startT opts) (endT opts)"
  unfolding times_as_parsed_def
  by (auto simp: get_options_OL_proc_def Let_def split: if_splits sum.splits
           dest!: construct_time_Inr)

lemma prep_times:
  "get_options_prep_offline exist u (a, args) = Inr (opts, d)
     \<Longrightarrow> times_as_parsed u (arg_startT a) (arg_endT a) (startT opts) (endT opts)"
  unfolding times_as_parsed_def
  by (auto simp: get_options_prep_offline_def Let_def split: if_splits sum.splits
           dest!: construct_time_Inr)

lemma OTF_times:
  "get_options exist u (a, args) = Inr (opts, d)
     \<Longrightarrow> times_as_parsed u (arg_startT a) (arg_endT a) (startT opts) (endT opts)"
  unfolding times_as_parsed_def
  by (auto simp: get_options_def Let_def split: if_splits sum.splits
           dest!: construct_time_Inr)

lemma OL_accepts:
  "(\<exists>opts d. get_options_OL_proc exist u (a, args) = Inr (opts, d))
     \<longleftrightarrow> (length args = 1 \<and> exist (hd args) \<and> times_parse u (arg_startT a) (arg_endT a))"
  using construct_time_ok [of u "''start time: ''" "arg_startT a"]
        construct_time_ok [of u "''end time: ''" "arg_endT a"]
  unfolding times_parse_def
  by (auto simp: get_options_OL_proc_def Let_def split: if_splits sum.splits)

lemma prep_accepts:
  "(\<exists>opts d. get_options_prep_offline exist u (a, args) = Inr (opts, d))
     \<longleftrightarrow> (length args = 1 \<and> exist (hd args) \<and> times_parse u (arg_startT a) (arg_endT a)
          \<and> UserAuth_ok (arg_UserAuth a))"
  using construct_time_ok [of u "''start time: ''" "arg_startT a"]
        construct_time_ok [of u "''end time: ''" "arg_endT a"]
        parse_UserAuth_ok [of "arg_UserAuth a"]
  unfolding times_parse_def
  by (auto simp: get_options_prep_offline_def Let_def split: if_splits sum.splits)

lemma OTF_accepts:
  "(\<exists>opts d. get_options exist u (a, args) = Inr (opts, d))
     \<longleftrightarrow> (length args = 1 \<and> exist (hd args) \<and> times_parse u (arg_startT a) (arg_endT a)
          \<and> UserAuth_ok (arg_UserAuth a))"
  using construct_time_ok [of u "''start time: ''" "arg_startT a"]
        construct_time_ok [of u "''end time: ''" "arg_endT a"]
        parse_UserAuth_ok [of "arg_UserAuth a"]
  unfolding times_parse_def
  by (auto simp: get_options_def Let_def split: if_splits sum.splits prod.splits)

lemma sample_dates_order:
  "timestamp \<lparr>year = 2015, julday = 1, sod = 0\<rparr> < timestamp \<lparr>year = 2015, julday = 2, sod = 0\<rparr>"
  by (simp add: timestamp_def days_before_year_def)

text \<open>
  C8. Whenever \<^verbatim>\<open>get_options\<close> returns: if both the overwrite flag and the skip-existing
  flag were given, the returned \<open>skip\<close> and \<open>ovr\<close> are both \<open>False\<close>; if at most one of
  them was given, each returned flag is what was given.
\<close>

theorem get_options_skip_ovr:
  assumes "get_options exist utc_of_string (a, args) = Inr (opts, indb)"
  shows "(arg_skip a \<and> arg_ovr a \<longrightarrow> \<not> skip opts \<and> \<not> ovr opts)
       \<and> (\<not> (arg_skip a \<and> arg_ovr a) \<longrightarrow> skip opts = arg_skip a \<and> ovr opts = arg_ovr a)"
  using assms
  by (auto simp: get_options_def Let_def split: if_splits sum.splits)

theorem get_options_skip_ovr_witness:
  "(\<exists>opts. get_options (\<lambda>f. True) sample_dates (sample_args_OTF True True, [''stations.pkl''])
              = Inr (opts, ''stations.pkl'') \<and> \<not> skip opts \<and> \<not> ovr opts)
   \<and> (\<exists>opts. get_options (\<lambda>f. True) sample_dates (sample_args_OTF True False, [''stations.pkl''])
              = Inr (opts, ''stations.pkl'') \<and> skip opts \<and> \<not> ovr opts)"
proof -
  obtain o1 where r1: "get_options (\<lambda>f. True) sample_dates
      (sample_args_OTF True True, [''stations.pkl'']) = Inr (o1, ''stations.pkl'')"
    by (simp add: get_options_def sample_args_OTF_def sample_dates_def construct_time_def
          parse_UserAuth_def Let_def)
  obtain o2 where r2: "get_options (\<lambda>f. True) sample_dates
      (sample_args_OTF True False, [''stations.pkl'']) = Inr (o2, ''stations.pkl'')"
    by (simp add: get_options_def sample_args_OTF_def sample_dates_def construct_time_def
          parse_UserAuth_def Let_def)
  from get_options_skip_ovr [OF r1] have "\<not> skip o1 \<and> \<not> ovr o1"
    by (simp add: sample_args_OTF_def)
  moreover from get_options_skip_ovr [OF r2] have "skip o2 \<and> \<not> ovr o2"
    by (simp add: sample_args_OTF_def)
  ultimately show ?thesis using r1 r2 by blast
qed

text \<open>
  C10. In the options returned by \<^verbatim>\<open>get_options\<close>, \<^verbatim>\<open>get_options_prep_offline\<close> and
  \<^verbatim>\<open>get_options_OL_proc\<close>, \<open>startT\<close> and \<open>endT\<close> are \<open>None\<close> when the corresponding
  string was empty and the constructed \<^verbatim>\<open>UTCDateTime\<close> otherwise. Whether the functions
  return depends on each string alone (with the positional argument and, for the first
  two, the user authentification): no check relates the two times, so an end time
  strictly earlier than the start time is accepted and returned as constructed.
\<close>

theorem option_times_parsed_and_unrelated:
  "(get_options exist u (aF, args) = Inr (oF, dF)
      \<longrightarrow> times_as_parsed u (arg_startT aF) (arg_endT aF) (startT oF) (endT oF))
   \<and> (get_options_prep_offline exist u (aP, args) = Inr (oP, dP)
      \<longrightarrow> times_as_parsed u (arg_startT aP) (arg_endT aP) (startT oP) (endT oP))
   \<and> (get_options_OL_proc exist u (aL, args) = Inr (oL, dL)
      \<longrightarrow> times_as_parsed u (arg_startT aL) (arg_endT aL) (startT oL) (endT oL))
   \<and> ((\<exists>opts d. get_options exist u (aF, args) = Inr (opts, d))
      \<longleftrightarrow> (length args = 1 \<and> exist (hd args) \<and> times_parse u (arg_startT aF) (arg_endT aF)
           \<and> UserAuth_ok (arg_UserAuth aF)))
   \<and> ((\<exists>opts d. get_options_prep_offline exist u (aP, args) = Inr (opts, d))
      \<longleftrightarrow> (length args = 1 \<and> exist (hd args) \<and> times_parse u (arg_startT aP) (arg_endT aP)
           \<and> UserAuth_ok (arg_UserAuth aP)))
   \<and> ((\<exists>opts d. get_options_OL_proc exist u (aL, args) = Inr (opts, d))
      \<longleftrightarrow> (length args = 1 \<and> exist (hd args) \<and> times_parse u (arg_startT aL) (arg_endT aL)))"
  using OTF_times [of exist u aF args oF dF] prep_times [of exist u aP args oP dP]
        OL_times [of exist u aL args oL dL] OTF_accepts [of exist u aF args]
        prep_accepts [of exist u aP args] OL_accepts [of exist u aL args]
  by blast

theorem option_times_parsed_and_unrelated_witness:
  "timestamp \<lparr>year = 2015, julday = 1, sod = 0\<rparr> < timestamp \<lparr>year = 2015, julday = 2, sod = 0\<rparr>
   \<and> (\<exists>opts d. get_options (\<lambda>f. True) sample_dates (sample_args_OTF False False, [''stations.pkl''])
          = Inr (opts, d)
        \<and> startT opts = Some \<lparr>year = 2015, julday = 2, sod = 0\<rparr>
        \<and> endT opts = Some \<lparr>year = 2015, julday = 1, sod = 0\<rparr>)
   \<and> (\<exists>opts d. get_options_prep_offline (\<lambda>f. True) sample_dates (sample_args_prep, [''stations.pkl''])
          = Inr (opts, d)
        \<and> startT opts = Some \<lparr>year = 2015, julday = 2, sod = 0\<rparr>
        \<and> endT opts = Some \<lparr>year = 2015, julday = 1, sod = 0\<rparr>)
   \<and> (\<exists>opts d. get_options_OL_proc (\<lambda>f. True) sample_dates (sample_args_OL, [''stations.pkl''])
          = Inr (opts, d)
        \<and> startT opts = Some \<lparr>year = 2015, julday = 2, sod = 0\<rparr>
        \<and> endT opts = Some \<lparr>year = 2015, julday = 1, sod = 0\<rparr>)"
proof -
  have ua: "UserAuth_ok ''me:pw''" by (simp add: UserAuth_ok_def)
  have tp: "times_parse sample_dates ''2015-01-02'' ''2015-01-01''"
    by (simp add: times_parse_def sample_dates_def)
  have s: "sample_dates ''2015-01-02'' = Some \<lparr>year = 2015, julday = 2, sod = 0\<rparr>"
          "sample_dates ''2015-01-01'' = Some \<lparr>year = 2015, julday = 1, sod = 0\<rparr>"
    by (simp_all add: sample_dates_def)
  have fields: "arg_startT (sample_args_OTF False False) = ''2015-01-02''"
    "arg_endT (sample_args_OTF False False) = ''2015-01-01''"
    "arg_UserAuth (sample_args_OTF False False) = ''me:pw''"
    "arg_startT sample_args_prep = ''2015-01-02''"
    "arg_endT sample_args_prep = ''2015-01-01''"
    "arg_UserAuth sample_args_prep = ''me:pw''"
    "arg_startT sample_args_OL = ''2015-01-02''"
    "arg_endT sample_args_OL = ''2015-01-01''"
    by (simp_all add: sample_args_OTF_def sample_args_prep_def sample_args_OL_def)
  have T: "\<And>oF dF oP dP oL dL.
    (get_options (\<lambda>f. True) sample_dates (sample_args_OTF False False, [''stations.pkl'']) = Inr (oF, dF)
      \<longrightarrow> startT oF = Some \<lparr>year = 2015, julday = 2, sod = 0\<rparr> \<and> endT oF = Some \<lparr>year = 2015, julday = 1, sod = 0\<rparr>)
   \<and> (get_options_prep_offline (\<lambda>f. True) sample_dates (sample_args_prep, [''stations.pkl'']) = Inr (oP, dP)
      \<longrightarrow> startT oP = Some \<lparr>year = 2015, julday = 2, sod = 0\<rparr> \<and> endT oP = Some \<lparr>year = 2015, julday = 1, sod = 0\<rparr>)
   \<and> (get_options_OL_proc (\<lambda>f. True) sample_dates (sample_args_OL, [''stations.pkl'']) = Inr (oL, dL)
      \<longrightarrow> startT oL = Some \<lparr>year = 2015, julday = 2, sod = 0\<rparr> \<and> endT oL = Some \<lparr>year = 2015, julday = 1, sod = 0\<rparr>)
   \<and> (\<exists>opts d. get_options (\<lambda>f. True) sample_dates (sample_args_OTF False False, [''stations.pkl'']) = Inr (opts, d))
   \<and> (\<exists>opts d. get_options_prep_offline (\<lambda>f. True) sample_dates (sample_args_prep, [''stations.pkl'']) = Inr (opts, d))
   \<and> (\<exists>opts d. get_options_OL_proc (\<lambda>f. True) sample_dates (sample_args_OL, [''stations.pkl'']) = Inr (opts, d))"
    using option_times_parsed_and_unrelated [of "\<lambda>f. True" sample_dates
      "sample_args_OTF False False" "[''stations.pkl'']" _ _ sample_args_prep _ _ sample_args_OL]
    by (simp add: fields ua tp s times_as_parsed_def)
  show ?thesis using T sample_dates_order by blast
qed

subsection \<open>The sample library\<close>

lemma sample_lib_simps:
  "read sample_lib f = (case map_of sample_disk f of None \<Rightarrow> Inl (LibError ''cannot read'') | Some st \<Rightarrow> Inr st)"
  "merge sample_lib = sample_merge"
  "trim sample_lib = (\<lambda>t1 t2 st. Inr st)"
  "dsp sample_lib = sample_dsp"
  "utc_format_raises sample_lib = True"
  by (simp_all add: sample_lib_def)

lemma upper_simps:
  "upper ''Z'' = ''Z''" "upper ''N'' = ''N''" "upper ''E'' = ''E''"
  "upper ''CN'' = ''CN''" "upper ''PO'' = ''PO''" "upper ''STA'' = ''STA''" "upper ''BH'' = ''BH''"
  by (simp_all add: upper_def upper_char_def)

lemma sample_times:
  "strftime_Y day1_start = ''2015''" "strftime_j day1_start = ''001''"
  "strftime_Y day1_end = ''2015''" "strftime_j day1_end = ''001''"
  "strftime_Y day1_late = ''2015''" "strftime_j day1_late = ''001''"
  "strftime_Y day2_end = ''2015''" "strftime_j day2_end = ''002''"
  "strftime_Y next_year_end = ''2016''" "strftime_j next_year_end = ''001''"
  "timestamp day1_start = 1420070410" "timestamp day1_end = 1420070420"
  "timestamp day1_late = 1420156790" "timestamp day2_end = 1420156820"
  "timestamp next_year_end = 1451606420"
  by (simp_all add: strftime_Y_def strftime_j_def digits.simps digit_def timestamp_def
        days_before_year_def day1_start_def day1_end_def day1_late_def day2_end_def next_year_end_def)

lemma files_single_Z:
  "lclfiles_single sample_stdata (sample_sta locs) ''Z'' ''2015'' ''001'' = [''/data/2015.001.CN.STA..BHZ.SAC'']"
  by (simp add: lclfiles_single_def sample_stdata_def sample_disk_def sample_sta_def upper_simps
        fnmatch_filter_def format1_def format2_def pad_def)

lemma local_Z_ok:
  "local_Z sample_lib (sample_sta locs) day1_start day1_end sample_stdata NaN
     = ([EvRead ''/data/2015.001.CN.STA..BHZ.SAC''], Inr (False, Some [day_trace ''BHZ'' 1420070400]))"
  by (simp add: local_Z_def parse_localdata_for_comp_def single_day_def sample_times files_single_Z
      sample_lib_simps sample_disk_def nodata_convert_def day_trace_def item0_def data_unavailable_def)

subsection \<open>\<^verbatim>\<open>get_data_NEZ\<close>: checks and processing\<close>

lemma step_component: "step lb p tr = Inr tr' \<Longrightarrow> component tr' = component tr"
  by (auto simp: step_def component_def split: sum.splits)

lemma apply_proc_all2:
  "apply_proc lb p st = Inr st' \<Longrightarrow> list_all2 (\<lambda>a b. step lb p a = Inr b) st st'"
  by (induction st arbitrary: st') (auto split: sum.splits)

lemma processed_component: "processed lb tr = Inr tr' \<Longrightarrow> component tr' = component tr"
  by (auto simp: processed_def split: sum.splits dest!: step_component)

lemma process_all2:
  assumes "process lb st = Inr st'"
  shows "list_all2 (\<lambda>a b. processed lb a = Inr b) st st'"
proof -
  from assms obtain st1 st2 st3 st4 where
    s: "apply_proc lb (Detrend ''demean'') st = Inr st1"
       "apply_proc lb (Detrend ''linear'') st1 = Inr st2"
       "apply_proc lb (Lowpass 2.5 2 True) st2 = Inr st3"
       "apply_proc lb (Resample 5) st3 = Inr st4"
       "apply_proc lb (Bandpass 0.01 0.25 2 True) st4 = Inr st'"
    by (auto simp: process_def split: sum.splits)
  note a = s [THEN apply_proc_all2]
  from a have len: "length st = length st1" "length st1 = length st2" "length st2 = length st3"
    "length st3 = length st4" "length st4 = length st'"
    by (simp_all add: list_all2_lengthD)
  show ?thesis
  proof (rule list_all2_all_nthI)
    show "length st = length st'" using len by simp
  next
    fix n
    assume n: "n < length st"
    with len have n': "n < length st1" "n < length st2" "n < length st3" "n < length st4"
      by simp_all
    note list_all2_nthD [OF a(1) n] list_all2_nthD [OF a(2) n'(1)]
      list_all2_nthD [OF a(3) n'(2)] list_all2_nthD [OF a(4) n'(3)]
      list_all2_nthD [OF a(5) n'(4)]
    then show "processed lb (st ! n) = Inr (st' ! n)"
      by (simp add: processed_def)
  qed
qed

lemma all2_filter:
  assumes "list_all2 R xs ys" and "\<And>a b. R a b \<Longrightarrow> P a = Q b"
  shows "list_all2 R (filter P xs) (filter Q ys)"
  using assms by (induction rule: list_all2_induct) auto

lemma select_process:
  assumes "process lb st = Inr st'"
  shows "list_all2 (\<lambda>a b. processed lb a = Inr b) (select c st) (select c st')"
  unfolding select_def
  by (rule all2_filter [OF process_all2 [OF assms]]) (simp add: processed_component)

lemma item0_select_process:
  assumes "process lb st = Inr st'" and "item0 (select c st) = Inr tr"
  shows "\<exists>p. processed lb tr = Inr p \<and> item0 (select c st') = Inr p"
  using select_process [OF assms(1), of c] assms(2)
  by (cases "select c st"; cases "select c st'") (auto simp: item0_def)

lemma item0_select_process_from:
  assumes "process lb st = Inr st'" and "item0 (select c st') = Inr x"
  shows "\<exists>tr \<in> set st. processed lb tr = Inr x"
proof -
  from assms(2) obtain rest where c: "select c st' = x # rest"
    by (cases "select c st'") (auto simp: item0_def)
  with select_process [OF assms(1), of c] obtain tr r where
    "select c st = tr # r" "processed lb tr = Inr x"
    by (cases "select c st") auto
  moreover then have "tr \<in> set st"
    by (metis filter_is_subset list.set_intros(1) select_def subsetD)
  ultimately show ?thesis by blast
qed

lemma components_present:
  assumes "components_missing st = Inr False"
  shows "\<exists>z e n. item0 (select ''Z'' st) = Inr z \<and> item0 (select ''E'' st) = Inr e
           \<and> item0 (select ''N'' st) = Inr n"
  using assms
  by (auto simp: components_missing_def item0_def split: sum.splits list.splits if_splits)

text \<open>
  C7. When \<^verbatim>\<open>get_data_NEZ\<close> has obtained a stream that passes the completeness check of
  line 713 and the length check of line 728, the stream is demeaned, linearly detrended,
  low-pass filtered at 2.5 Hz, resampled to 5 Hz and band-pass filtered between 0.01 and
  0.25 Hz, in this order. If one of the five calls raises, the exception leaves
  \<^verbatim>\<open>get_data_NEZ\<close>; if all five succeed, the function returns \<^verbatim>\<open>(False, trN, trE, trZ)\<close>,
  each trace being the first trace of its component after the five calls (\<open>processed\<close>).
\<close>

theorem processing_order:
  assumes "acquire lb cl sta tstart tend stdata ndv = (evs, Inr (Value st))"
    and "components_missing st = Inr False"
    and "trace_lengths st = Inr (ll0, ll1, ll2)"
    and "ll0 = ll1 \<and> ll0 = ll2"
  shows "(\<forall>e. process lb st = Inl e \<longrightarrow>
            get_data_NEZ lb cl sta tstart tend stdata ndv = (evs, Inl e))
       \<and> (\<forall>st'. process lb st = Inr st' \<longrightarrow>
            (\<exists>trN trE trZ pN pE pZ.
               item0 (select ''N'' st) = Inr trN \<and> item0 (select ''E'' st) = Inr trE
               \<and> item0 (select ''Z'' st) = Inr trZ
               \<and> processed lb trN = Inr pN \<and> processed lb trE = Inr pE
               \<and> processed lb trZ = Inr pZ
               \<and> get_data_NEZ lb cl sta tstart tend stdata ndv
                   = (evs, Inr (False, Some pN, Some pE, Some pZ))))"
proof (intro conjI allI impI)
  fix e
  assume "process lb st = Inl e"
  with assms show "get_data_NEZ lb cl sta tstart tend stdata ndv = (evs, Inl e)"
    by (simp add: get_data_NEZ_def check_and_process_def)
next
  fix st'
  assume p: "process lb st = Inr st'"
  from components_present [OF assms(2)] obtain z e n where
    c: "item0 (select ''Z'' st) = Inr z" "item0 (select ''E'' st) = Inr e"
       "item0 (select ''N'' st) = Inr n"
    by blast
  from item0_select_process [OF p c(1)] obtain pZ where
    z: "processed lb z = Inr pZ" "item0 (select ''Z'' st') = Inr pZ" by blast
  from item0_select_process [OF p c(2)] obtain pE where
    e: "processed lb e = Inr pE" "item0 (select ''E'' st') = Inr pE" by blast
  from item0_select_process [OF p c(3)] obtain pN where
    n: "processed lb n = Inr pN" "item0 (select ''N'' st') = Inr pN" by blast
  have "extract_traces st' = Inr (False, Some pN, Some pE, Some pZ)"
    by (simp add: extract_traces_def z e n)
  with assms p have "get_data_NEZ lb cl sta tstart tend stdata ndv
      = (evs, Inr (False, Some pN, Some pE, Some pZ))"
    by (simp add: get_data_NEZ_def check_and_process_def)
  with c z e n show "\<exists>trN trE trZ pN pE pZ.
               item0 (select ''N'' st) = Inr trN \<and> item0 (select ''E'' st) = Inr trE
               \<and> item0 (select ''Z'' st) = Inr trZ
               \<and> processed lb trN = Inr pN \<and> processed lb trE = Inr pE
               \<and> processed lb trZ = Inr pZ
               \<and> get_data_NEZ lb cl sta tstart tend stdata ndv
                   = (evs, Inr (False, Some pN, Some pE, Some pZ))"
    by (intro exI conjI)
qed

lemma local_failed_unbound:
  assumes "local_Z lb sta tstart tend stdata ndv = (evZ, Inr (errZ, stZ))"
    and "local_N lb sta tstart tend stdata ndv = (evN, Inr (errN, stN))"
    and "local_E lb sta tstart tend stdata ndv = (evE, Inr (errE, stE))"
    and "errZ \<or> errN \<or> errE"
  shows "local_data lb sta tstart tend stdata ndv =
           (if stdata = [] then ([], Inr (True, Unbound)) else (evZ @ evN @ evE, Inr (True, Unbound)))"
  using assms
  by (auto simp: local_data_def local_Z_def local_N_def local_E_def)

text \<open>
  C9. If \<^verbatim>\<open>sta.location\<close> is the empty list and no local stream was resolved (the list of
  local paths is empty, or the three searches return and one of them reports an error),
  the variable \<^verbatim>\<open>st\<close> is read at line 709 before any assignment: the call raises
  \<^verbatim>\<open>UnboundLocalError\<close> and does not return \<^verbatim>\<open>(True, None, None, None)\<close>.
\<close>

theorem unbound_st_raises:
  assumes "location sta = []"
    and "stdata = [] \<or>
         (\<exists>evZ errZ stZ evN errN stN evE errE stE.
            local_Z lb sta tstart tend stdata ndv = (evZ, Inr (errZ, stZ))
            \<and> local_N lb sta tstart tend stdata ndv = (evN, Inr (errN, stN))
            \<and> local_E lb sta tstart tend stdata ndv = (evE, Inr (errE, stE))
            \<and> (errZ \<or> errN \<or> errE))"
  shows "snd (get_data_NEZ lb cl sta tstart tend stdata ndv) = Inl UnboundLocalError"
proof (cases "stdata = []")
  case True
  with assms(1) show ?thesis
    by (simp add: get_data_NEZ_def acquire_def local_data_def check_and_process_def)
next
  case False
  with assms(2) obtain evZ errZ stZ evN errN stN evE errE stE where
    l: "local_Z lb sta tstart tend stdata ndv = (evZ, Inr (errZ, stZ))"
       "local_N lb sta tstart tend stdata ndv = (evN, Inr (errN, stN))"
       "local_E lb sta tstart tend stdata ndv = (evE, Inr (errE, stE))"
       "errZ \<or> errN \<or> errE"
    by blast
  from local_failed_unbound [OF l] False assms(1) show ?thesis
    by (simp add: get_data_NEZ_def acquire_def check_and_process_def)
qed

subsection \<open>\<^verbatim>\<open>get_data_NEZ\<close>: disk before client\<close>

lemma returned_from_stream:
  assumes "check_and_process lb (Value st) = Inr (False, Some trN, Some trE, Some trZ)"
  shows "(\<exists>tr \<in> set st. processed lb tr = Inr trN) \<and> (\<exists>tr \<in> set st. processed lb tr = Inr trE)
         \<and> (\<exists>tr \<in> set st. processed lb tr = Inr trZ)"
proof -
  from assms obtain st' where p: "process lb st = Inr st'"
    and x: "extract_traces st' = Inr (False, Some trN, Some trE, Some trZ)"
    by (auto simp: check_and_process_def report_missing_def
             split: sum.splits bool.splits prod.splits if_splits)
  from x have "item0 (select ''N'' st') = Inr trN
           \<and> item0 (select ''E'' st') = Inr trE
           \<and> item0 (select ''Z'' st') = Inr trZ"
    by (auto simp: extract_traces_def split: sum.splits)
  then show ?thesis using item0_select_process_from [OF p] by blast
qed

lemma process_files_events:
  "process_files lb tstart tend ndv files = (evs, r) \<Longrightarrow> \<forall>ev \<in> set evs. \<not> is_query ev"
  by (induction files arbitrary: evs r)
     (auto simp: Let_def split: sum.splits prod.splits if_splits)

lemma merge_inner_events:
  "merge_inner lb tstart tend ndv sacf1 st1 files = (evs, r) \<Longrightarrow> \<forall>ev \<in> set evs. \<not> is_query ev"
  by (induction files arbitrary: evs r)
     (auto simp: Let_def split: sum.splits prod.splits if_splits list.splits option.splits)

lemma merge_outer_events:
  "merge_outer lb tstart tend ndv files1 files2 = (evs, r) \<Longrightarrow> \<forall>ev \<in> set evs. \<not> is_query ev"
proof (induction files1 arbitrary: evs r)
  case Nil
  then show ?case by simp
next
  case (Cons f rest)
  show ?case
  proof (cases "read lb f")
    case (Inl e)
    with Cons.prems show ?thesis by auto
  next
    case (Inr st1)
    obtain evi ri where i: "merge_inner lb tstart tend ndv f st1 files2 = (evi, ri)"
      by (cases "merge_inner lb tstart tend ndv f st1 files2")
    obtain evo ro where o: "merge_outer lb tstart tend ndv rest files2 = (evo, ro)"
      by (cases "merge_outer lb tstart tend ndv rest files2")
    from merge_inner_events [OF i] Cons.IH [OF o] Cons.prems Inr i o show ?thesis
      by (auto split: sum.splits option.splits)
  qed
qed

lemma data_unavailable_fst [simp]: "fst (data_unavailable r) = fst r"
  by (cases r) (auto simp: data_unavailable_def split: sum.splits option.splits)

lemma parse_events:
  assumes "parse_localdata_for_comp lb cmp stdata sta tstart tend ndv = (evs, r)"
  shows "\<forall>ev \<in> set evs. \<not> is_query ev"
proof -
  have "evs = fst (parse_localdata_for_comp lb cmp stdata sta tstart tend ndv)"
    using assms by simp
  then consider "evs = []"
    | files where "evs = fst (process_files lb tstart tend ndv files)"
    | f1 f2 where "evs = fst (merge_outer lb tstart tend ndv f1 f2)"
    by (auto simp: parse_localdata_for_comp_def single_day_def two_days_def Let_def
             split: if_splits)
  then show ?thesis
  proof cases
    case 1
    then show ?thesis by simp
  next
    case 2
    then show ?thesis
      using process_files_events [of lb tstart tend ndv files] by (metis prod.collapse)
  next
    case 3
    then show ?thesis
      using merge_outer_events [of lb tstart tend ndv f1 f2] by (metis prod.collapse)
  qed
qed

lemma process_files_returns:
  "process_files lb tstart tend ndv files = (evs, Inr (Some (b, x))) \<Longrightarrow> \<not> b \<and> x \<noteq> None"
  by (induction files arbitrary: evs)
     (auto simp: Let_def split: sum.splits prod.splits if_splits)

lemma merge_inner_returns:
  "merge_inner lb tstart tend ndv sacf1 st1 files = (evs, Inr (Some (b, x))) \<Longrightarrow> \<not> b \<and> x \<noteq> None"
  by (induction files arbitrary: evs)
     (fastforce simp: Let_def split: sum.splits prod.splits if_splits list.splits option.splits)+

lemma merge_outer_returns:
  "merge_outer lb tstart tend ndv files1 files2 = (evs, Inr (Some (b, x))) \<Longrightarrow> \<not> b \<and> x \<noteq> None"
proof (induction files1 arbitrary: evs)
  case Nil
  then show ?case by simp
next
  case (Cons f rest)
  show ?case
  proof (cases "read lb f")
    case (Inl e)
    with Cons.prems show ?thesis by auto
  next
    case (Inr st1)
    obtain evi ri where i: "merge_inner lb tstart tend ndv f st1 files2 = (evi, ri)"
      by (cases "merge_inner lb tstart tend ndv f st1 files2")
    obtain evo ro where o: "merge_outer lb tstart tend ndv rest files2 = (evo, ro)"
      by (cases "merge_outer lb tstart tend ndv rest files2")
    from Cons.prems Inr i o merge_inner_returns [of lb tstart tend ndv f st1 files2 evi b x]
      Cons.IH [of evo]
    show ?thesis
      by (auto split: sum.splits option.splits)
  qed
qed

lemma data_unavailable_False:
  assumes "data_unavailable r = (evs, Inr (False, x))"
  shows "r = (evs, Inr (Some (False, x)))"
  using assms
  by (cases r) (auto simp: data_unavailable_def split: sum.splits option.splits)

lemma parse_False_Some:
  assumes "parse_localdata_for_comp lb cmp stdata sta tstart tend ndv = (evs, Inr (False, x))"
  shows "x \<noteq> None"
  using assms process_files_returns merge_outer_returns
  by (auto simp: parse_localdata_for_comp_def single_day_def two_days_def Let_def
           split: if_splits dest!: data_unavailable_False)

lemma local_data_events:
  assumes "local_data lb sta tstart tend stdata ndv = (evs, r)"
  shows "\<forall>ev \<in> set evs. \<not> is_query ev"
proof -
  obtain evZ rZ where z: "parse_localdata_for_comp lb ''Z'' stdata sta tstart tend ndv = (evZ, rZ)"
    by (cases "parse_localdata_for_comp lb ''Z'' stdata sta tstart tend ndv")
  obtain evN rN where n: "parse_localdata_for_comp lb ''N'' stdata sta tstart tend ndv = (evN, rN)"
    by (cases "parse_localdata_for_comp lb ''N'' stdata sta tstart tend ndv")
  obtain evE rE where e: "parse_localdata_for_comp lb ''E'' stdata sta tstart tend ndv = (evE, rE)"
    by (cases "parse_localdata_for_comp lb ''E'' stdata sta tstart tend ndv")
  from assms z n e have "set evs \<subseteq> set evZ \<union> set evN \<union> set evE"
    by (auto simp: local_data_def Let_def split: if_splits sum.splits prod.splits option.splits)
  with parse_events [OF z] parse_events [OF n] parse_events [OF e] show ?thesis by blast
qed

lemma request_loop_result:
  "request_loop cl sta tstart tend locs v = (evs, v') \<Longrightarrow> locs = [] \<Longrightarrow> evs = [] \<and> v' = v"
  by simp

lemma query_needs_erd:
  assumes "\<exists>ev \<in> set (fst (get_data_NEZ lb cl sta tstart tend stdata ndv)). is_query ev"
  shows "\<exists>evs st. local_data lb sta tstart tend stdata ndv = (evs, Inr (True, st))"
proof -
  obtain evs r where l: "local_data lb sta tstart tend stdata ndv = (evs, r)"
    by (cases "local_data lb sta tstart tend stdata ndv")
  note noq = local_data_events [OF l]
  show ?thesis
  proof (cases r)
    case (Inl e)
    with l assms noq show ?thesis by (simp add: get_data_NEZ_def acquire_def)
  next
    case (Inr p)
    obtain erd st where p: "p = (erd, st)" by (cases p)
    show ?thesis
    proof (cases erd)
      case True
      with l Inr p show ?thesis by simp
    next
      case False
      with l Inr p assms noq show ?thesis by (simp add: get_data_NEZ_def acquire_def)
    qed
  qed
qed

lemma local_data_True:
  assumes "local_data lb sta tstart tend stdata ndv = (evs, Inr (True, st))"
  shows "stdata = []
      \<or> (\<exists>ev x. local_Z lb sta tstart tend stdata ndv = (ev, Inr (True, x)))
      \<or> (\<exists>ev x. local_N lb sta tstart tend stdata ndv = (ev, Inr (True, x)))
      \<or> (\<exists>ev x. local_E lb sta tstart tend stdata ndv = (ev, Inr (True, x)))"
  using assms
  by (auto simp: local_data_def local_Z_def local_N_def local_E_def Let_def
           split: if_splits sum.splits prod.splits option.splits)

text \<open>
  C5. With a non-empty list of local paths, if the searches for Z, N and E all succeed,
  \<^verbatim>\<open>get_data_NEZ\<close> makes no request to the client, goes on with the stream joined from
  the three local streams, and every trace it returns is a processed trace of that
  stream. A request to the client is made only when the list of local paths is empty or
  the search for one of the components reported an error.
\<close>

theorem local_data_preferred:
  "(stdata \<noteq> []
      \<and> local_Z lb sta tstart tend stdata ndv = (evZ, Inr (False, stZ))
      \<and> local_N lb sta tstart tend stdata ndv = (evN, Inr (False, stN))
      \<and> local_E lb sta tstart tend stdata ndv = (evE, Inr (False, stE))
    \<longrightarrow> (\<exists>z n e. stZ = Some z \<and> stN = Some n \<and> stE = Some e
          \<and> get_data_NEZ lb cl sta tstart tend stdata ndv
              = (evZ @ evN @ evE, check_and_process lb (Value (z @ n @ e)))
          \<and> (\<forall>ev \<in> set (evZ @ evN @ evE). \<not> is_query ev)
          \<and> (\<forall>trN trE trZ.
                check_and_process lb (Value (z @ n @ e)) = Inr (False, Some trN, Some trE, Some trZ)
                \<longrightarrow> (\<exists>tr \<in> set (z @ n @ e). processed lb tr = Inr trN)
                  \<and> (\<exists>tr \<in> set (z @ n @ e). processed lb tr = Inr trE)
                  \<and> (\<exists>tr \<in> set (z @ n @ e). processed lb tr = Inr trZ))))
   \<and> ((\<exists>ev \<in> set (fst (get_data_NEZ lb cl sta tstart tend stdata ndv)). is_query ev)
      \<longrightarrow> stdata = []
        \<or> (\<exists>ev x. local_Z lb sta tstart tend stdata ndv = (ev, Inr (True, x)))
        \<or> (\<exists>ev x. local_N lb sta tstart tend stdata ndv = (ev, Inr (True, x)))
        \<or> (\<exists>ev x. local_E lb sta tstart tend stdata ndv = (ev, Inr (True, x))))"
proof (intro conjI impI)
  assume a: "stdata \<noteq> []
      \<and> local_Z lb sta tstart tend stdata ndv = (evZ, Inr (False, stZ))
      \<and> local_N lb sta tstart tend stdata ndv = (evN, Inr (False, stN))
      \<and> local_E lb sta tstart tend stdata ndv = (evE, Inr (False, stE))"
  then have pz: "parse_localdata_for_comp lb ''Z'' stdata sta tstart tend ndv = (evZ, Inr (False, stZ))"
    and pn: "parse_localdata_for_comp lb ''N'' stdata sta tstart tend ndv = (evN, Inr (False, stN))"
    and pe: "parse_localdata_for_comp lb ''E'' stdata sta tstart tend ndv = (evE, Inr (False, stE))"
    by (simp_all add: local_Z_def local_N_def local_E_def)
  from parse_False_Some [OF pz] parse_False_Some [OF pn] parse_False_Some [OF pe]
  obtain z n e where s: "stZ = Some z" "stN = Some n" "stE = Some e" by auto
  have g: "get_data_NEZ lb cl sta tstart tend stdata ndv
              = (evZ @ evN @ evE, check_and_process lb (Value (z @ n @ e)))"
    using a pz pn pe s by (simp add: get_data_NEZ_def acquire_def local_data_def)
  have q: "\<forall>ev \<in> set (evZ @ evN @ evE). \<not> is_query ev"
    using parse_events [OF pz] parse_events [OF pn] parse_events [OF pe] by auto
  show "\<exists>z n e. stZ = Some z \<and> stN = Some n \<and> stE = Some e
          \<and> get_data_NEZ lb cl sta tstart tend stdata ndv
              = (evZ @ evN @ evE, check_and_process lb (Value (z @ n @ e)))
          \<and> (\<forall>ev \<in> set (evZ @ evN @ evE). \<not> is_query ev)
          \<and> (\<forall>trN trE trZ.
                check_and_process lb (Value (z @ n @ e)) = Inr (False, Some trN, Some trE, Some trZ)
                \<longrightarrow> (\<exists>tr \<in> set (z @ n @ e). processed lb tr = Inr trN)
                  \<and> (\<exists>tr \<in> set (z @ n @ e). processed lb tr = Inr trE)
                  \<and> (\<exists>tr \<in> set (z @ n @ e). processed lb tr = Inr trZ))"
    using s g q returned_from_stream [of lb "z @ n @ e"] by blast
next
  assume "\<exists>ev \<in> set (fst (get_data_NEZ lb cl sta tstart tend stdata ndv)). is_query ev"
  from query_needs_erd [OF this] local_data_True
  show "stdata = []
        \<or> (\<exists>ev x. local_Z lb sta tstart tend stdata ndv = (ev, Inr (True, x)))
        \<or> (\<exists>ev x. local_N lb sta tstart tend stdata ndv = (ev, Inr (True, x)))
        \<or> (\<exists>ev x. local_E lb sta tstart tend stdata ndv = (ev, Inr (True, x)))"
    by blast
qed

lemma files_single_N:
  "lclfiles_single sample_stdata (sample_sta locs) ''N'' ''2015'' ''001'' = [''/data/2015.001.CN.STA..BHN.SAC'']"
  by (simp add: lclfiles_single_def sample_stdata_def sample_disk_def sample_sta_def upper_simps
        fnmatch_filter_def format1_def format2_def pad_def)

lemma files_single_E:
  "lclfiles_single sample_stdata (sample_sta locs) ''E'' ''2015'' ''001'' = [''/data/2015.001.CN.STA..BHE.SAC'']"
  by (simp add: lclfiles_single_def sample_stdata_def sample_disk_def sample_sta_def upper_simps
        fnmatch_filter_def format1_def format2_def pad_def)

lemma local_N_ok:
  "local_N sample_lib (sample_sta locs) day1_start day1_end sample_stdata NaN
     = ([EvRead ''/data/2015.001.CN.STA..BHN.SAC''], Inr (False, Some [day_trace ''BHN'' 1420070400]))"
  by (simp add: local_N_def parse_localdata_for_comp_def single_day_def sample_times files_single_N
      sample_lib_simps sample_disk_def nodata_convert_def day_trace_def item0_def data_unavailable_def)

lemma local_E_ok:
  "local_E sample_lib (sample_sta locs) day1_start day1_end sample_stdata NaN
     = ([EvRead ''/data/2015.001.CN.STA..BHE.SAC''], Inr (False, Some [day_trace ''BHE'' 1420070400]))"
  by (simp add: local_E_def parse_localdata_for_comp_def single_day_def sample_times files_single_E
      sample_lib_simps sample_disk_def nodata_convert_def day_trace_def item0_def data_unavailable_def)

lemma sample_select:
  "select ''Z'' [day_trace ''BHZ'' t, day_trace ''BHN'' t, day_trace ''BHE'' t] = [day_trace ''BHZ'' t]"
  "select ''N'' [day_trace ''BHZ'' t, day_trace ''BHN'' t, day_trace ''BHE'' t] = [day_trace ''BHN'' t]"
  "select ''E'' [day_trace ''BHZ'' t, day_trace ''BHN'' t, day_trace ''BHE'' t] = [day_trace ''BHE'' t]"
  by (simp_all add: select_def component_def day_trace_def upper_def upper_char_def)

lemma day_trace_data: "data (day_trace ch t) = [Num 1, Num 2]"
  by (simp add: day_trace_def)

lemma processed_sample:
  "processed sample_lib tr =
     (if 2.5 * (2 * delta tr) \<ge> 1 then Inl (LibError ''ValueError'')
      else Inr (tr\<lparr>delta := 1 / 5\<rparr>))"
  by (simp add: processed_def step_def sample_lib_def sample_dsp_def)

lemma check_and_process_sample:
  "check_and_process sample_lib
      (Value [day_trace ''BHZ'' 1420070400, day_trace ''BHN'' 1420070400,
              day_trace ''BHE'' 1420070400])
      = Inr (False, Some ((day_trace ''BHN'' 1420070400)\<lparr>delta := 1 / 5\<rparr>),
             Some ((day_trace ''BHE'' 1420070400)\<lparr>delta := 1 / 5\<rparr>),
             Some ((day_trace ''BHZ'' 1420070400)\<lparr>delta := 1 / 5\<rparr>))"
  by (simp add: check_and_process_def components_missing_def select_def component_def
        day_trace_def item0_def truthy_def trace_lengths_def process_def step_def
        sample_lib_simps sample_dsp_def extract_traces_def upper_def upper_char_def)

theorem local_data_preferred_witness:
  "get_data_NEZ sample_lib client_down (sample_sta ['''']) day1_start day1_end sample_stdata NaN
     = ([EvRead ''/data/2015.001.CN.STA..BHZ.SAC'', EvRead ''/data/2015.001.CN.STA..BHN.SAC'',
         EvRead ''/data/2015.001.CN.STA..BHE.SAC''],
        Inr (False, Some ((day_trace ''BHN'' 1420070400)\<lparr>delta := 1 / 5\<rparr>),
             Some ((day_trace ''BHE'' 1420070400)\<lparr>delta := 1 / 5\<rparr>),
             Some ((day_trace ''BHZ'' 1420070400)\<lparr>delta := 1 / 5\<rparr>)))
   \<and> (\<exists>ev \<in> set (fst (get_data_NEZ sample_lib client_down (sample_sta ['''']) day1_start day1_end [] NaN)).
         is_query ev)"
proof -
  have ne: "sample_stdata \<noteq> []" by (simp add: sample_stdata_def sample_disk_def)
  have q: "\<exists>ev \<in> set (fst (get_data_NEZ sample_lib client_down (sample_sta ['''']) day1_start day1_end [] NaN)).
         is_query ev"
    by (simp add: get_data_NEZ_def acquire_def local_data_def sample_sta_def client_down_def
          check_and_process_def)
  note T = local_data_preferred [of sample_stdata sample_lib "sample_sta ['''']" day1_start day1_end NaN
      "[EvRead ''/data/2015.001.CN.STA..BHZ.SAC'']" "Some [day_trace ''BHZ'' 1420070400]"
      "[EvRead ''/data/2015.001.CN.STA..BHN.SAC'']" "Some [day_trace ''BHN'' 1420070400]"
      "[EvRead ''/data/2015.001.CN.STA..BHE.SAC'']" "Some [day_trace ''BHE'' 1420070400]"
      client_down]
  from T ne local_Z_ok local_N_ok local_E_ok
  have "get_data_NEZ sample_lib client_down (sample_sta ['''']) day1_start day1_end sample_stdata NaN
     = ([EvRead ''/data/2015.001.CN.STA..BHZ.SAC''] @ [EvRead ''/data/2015.001.CN.STA..BHN.SAC'']
          @ [EvRead ''/data/2015.001.CN.STA..BHE.SAC''],
        check_and_process sample_lib
          (Value ([day_trace ''BHZ'' 1420070400] @ [day_trace ''BHN'' 1420070400]
                    @ [day_trace ''BHE'' 1420070400])))"
    by auto
  with check_and_process_sample q show ?thesis by simp
qed

lemma missing_component_raises:
  assumes "select ''Z'' st = [] \<or> select ''E'' st = [] \<or> select ''N'' st = []"
  shows "check_and_process lb (Value st) = Inl IndexError"
  using assms
  by (auto simp: check_and_process_def components_missing_def report_missing_def item0_def
           split: list.splits sum.splits bool.splits)

lemma length_check_passes_iff:
  assumes "components_missing st = Inr False"
    and "item0 (select ''Z'' st) = Inr z" and "item0 (select ''E'' st) = Inr e"
  shows "check_and_process lb (Value st) = Inr (True, None, None, None)
           \<longleftrightarrow> length (data z) \<noteq> length (data e)"
proof (cases "process lb st")
  case (Inl err)
  with assms show ?thesis
    by (auto simp: check_and_process_def trace_lengths_def)
next
  case (Inr st')
  from components_present [OF assms(1)] obtain n where
    n: "item0 (select ''N'' st) = Inr n" by blast
  from item0_select_process [OF Inr assms(2)] item0_select_process [OF Inr assms(3)]
    item0_select_process [OF Inr n]
  obtain pZ pE pN where "item0 (select ''Z'' st') = Inr pZ" "item0 (select ''E'' st') = Inr pE"
    "item0 (select ''N'' st') = Inr pN" by blast
  with assms Inr show ?thesis
    by (auto simp: check_and_process_def trace_lengths_def extract_traces_def)
qed

text \<open>
  C1. The length check of lines 725-728 reads \<^verbatim>\<open>ll2\<close> from the Z component, so the
  length of the N trace is never compared: for a stream sampled at 20 Hz whose E and Z
  traces have 40 samples and whose N trace has 39, the call passes the check and returns
  the traces.
\<close>

theorem length_check_misses_N:
  "get_data_NEZ sample_lib client_short_N (sample_sta ['''']) day1_start day1_end [] NaN
     = ([EvQuery ''''],
        Inr (False, Some ((short_trace ''BHN'' 0.05 39)\<lparr>delta := 1 / 5\<rparr>),
             Some ((short_trace ''BHE'' 0.05 40)\<lparr>delta := 1 / 5\<rparr>),
             Some ((short_trace ''BHZ'' 0.05 40)\<lparr>delta := 1 / 5\<rparr>)))
   \<and> length (data (short_trace ''BHN'' 0.05 39)) \<noteq> length (data (short_trace ''BHZ'' 0.05 40))"
  by (simp add: get_data_NEZ_def acquire_def local_data_def sample_sta_def client_short_N_def
      check_and_process_def components_missing_def select_def component_def short_trace_def
      item0_def truthy_def trace_lengths_def extract_traces_def process_def step_def
      sample_lib_simps sample_dsp_def upper_def upper_char_def)

lemma select_no_E:
  "select ''E'' [short_trace ''BHZ'' 0.05 40, short_trace ''BHZ'' 0.05 40,
                 short_trace ''BHN'' 0.05 40] = []"
  by (simp add: select_def component_def short_trace_def upper_def upper_char_def)

text \<open>
  C2. A stream that lacks a component does not reach \<^verbatim>\<open>return True, None, None, None\<close>:
  indexing the empty selection raises \<^verbatim>\<open>IndexError\<close>. Here the client answers with two
  Z traces and an N trace.
\<close>

theorem missing_E_raises_IndexError:
  "get_data_NEZ sample_lib client_no_E (sample_sta ['''']) day1_start day1_end [] NaN
     = ([EvQuery ''''], Inl IndexError)"
  using missing_component_raises [of "[short_trace ''BHZ'' 0.05 40, short_trace ''BHZ'' 0.05 40,
      short_trace ''BHN'' 0.05 40]" sample_lib]
    select_no_E
  by (simp add: get_data_NEZ_def acquire_def local_data_def sample_sta_def client_no_E_def)

lemma acquire_client:
  "acquire sample_lib client_20Hz (sample_sta ['''']) day1_start day1_end [] NaN
     = ([EvQuery ''''],
        Inr (Value [short_trace ''BHE'' 0.05 40, short_trace ''BHN'' 0.05 40,
                    short_trace ''BHZ'' 0.05 40]))"
  "acquire sample_lib client_1Hz (sample_sta ['''']) day1_start day1_end [] NaN
     = ([EvQuery ''''],
        Inr (Value [short_trace ''BHE'' 1 40, short_trace ''BHN'' 1 40,
                    short_trace ''BHZ'' 1 40]))"
  by (simp_all add: acquire_def local_data_def sample_sta_def client_20Hz_def client_1Hz_def)

lemma select_short:
  "select ''Z'' [short_trace ''BHE'' dt n, short_trace ''BHN'' dt n, short_trace ''BHZ'' dt n]
     = [short_trace ''BHZ'' dt n]"
  "select ''N'' [short_trace ''BHE'' dt n, short_trace ''BHN'' dt n, short_trace ''BHZ'' dt n]
     = [short_trace ''BHN'' dt n]"
  "select ''E'' [short_trace ''BHE'' dt n, short_trace ''BHN'' dt n, short_trace ''BHZ'' dt n]
     = [short_trace ''BHE'' dt n]"
  by (simp_all add: select_def component_def short_trace_def upper_def upper_char_def)

lemma short_trace_fields:
  "data (short_trace ch dt n) = replicate n (Num 1)" "delta (short_trace ch dt n) = dt"
  by (simp_all add: short_trace_def)

lemma checks_pass_short:
  "components_missing [short_trace ''BHE'' dt 40, short_trace ''BHN'' dt 40, short_trace ''BHZ'' dt 40]
     = Inr False"
  "trace_lengths [short_trace ''BHE'' dt 40, short_trace ''BHN'' dt 40, short_trace ''BHZ'' dt 40]
     = Inr (40, 40, 40)"
  by (simp_all add: components_missing_def trace_lengths_def select_short item0_def truthy_def
        short_trace_fields)

lemma process_1Hz:
  "process sample_lib [short_trace ''BHE'' 1 40, short_trace ''BHN'' 1 40, short_trace ''BHZ'' 1 40]
     = Inl (LibError ''ValueError'')"
  by (simp add: process_def step_def sample_lib_simps sample_dsp_def short_trace_def)

lemma process_20Hz:
  "process sample_lib
     [short_trace ''BHE'' 0.05 40, short_trace ''BHN'' 0.05 40, short_trace ''BHZ'' 0.05 40]
     = Inr [(short_trace ''BHE'' 0.05 40)\<lparr>delta := 1 / 5\<rparr>,
            (short_trace ''BHN'' 0.05 40)\<lparr>delta := 1 / 5\<rparr>,
            (short_trace ''BHZ'' 0.05 40)\<lparr>delta := 1 / 5\<rparr>]"
  by (simp add: process_def step_def sample_lib_simps sample_dsp_def short_trace_def)

text \<open>
  A stream of three traces of 40 samples at 1 Hz passes both checks; the low-pass filter at
  2.5 Hz then raises, and the call ends with this exception instead of returning traces.
\<close>

theorem processing_can_raise:
  "acquire sample_lib client_1Hz (sample_sta ['''']) day1_start day1_end [] NaN
     = ([EvQuery ''''],
        Inr (Value [short_trace ''BHE'' 1 40, short_trace ''BHN'' 1 40,
                    short_trace ''BHZ'' 1 40]))
   \<and> components_missing
        [short_trace ''BHE'' 1 40, short_trace ''BHN'' 1 40, short_trace ''BHZ'' 1 40]
       = Inr False
   \<and> trace_lengths
        [short_trace ''BHE'' 1 40, short_trace ''BHN'' 1 40, short_trace ''BHZ'' 1 40]
       = Inr (40, 40, 40)
   \<and> get_data_NEZ sample_lib client_1Hz (sample_sta ['''']) day1_start day1_end [] NaN
       = ([EvQuery ''''], Inl (LibError ''ValueError''))"
  using acquire_client(2) checks_pass_short [of 1] process_1Hz
  by (simp add: get_data_NEZ_def check_and_process_def)

theorem processing_order_witness:
  "get_data_NEZ sample_lib client_20Hz (sample_sta ['''']) day1_start day1_end [] NaN
     = ([EvQuery ''''],
        Inr (False, Some ((short_trace ''BHN'' 0.05 40)\<lparr>delta := 1 / 5\<rparr>),
             Some ((short_trace ''BHE'' 0.05 40)\<lparr>delta := 1 / 5\<rparr>),
             Some ((short_trace ''BHZ'' 0.05 40)\<lparr>delta := 1 / 5\<rparr>)))
   \<and> processed sample_lib (short_trace ''BHN'' 0.05 40)
       = Inr ((short_trace ''BHN'' 0.05 40)\<lparr>delta := 1 / 5\<rparr>)
   \<and> get_data_NEZ sample_lib client_1Hz (sample_sta ['''']) day1_start day1_end [] NaN
       = ([EvQuery ''''], Inl (LibError ''ValueError''))"
proof -
  have e: "(40::nat) = 40 \<and> (40::nat) = 40" by simp
  note T20 = processing_order [OF acquire_client(1) checks_pass_short(1) checks_pass_short(2) e]
  note T1 = processing_order [OF acquire_client(2) checks_pass_short(1) checks_pass_short(2) e]
  from T20 process_20Hz have
    "\<exists>trN trE trZ pN pE pZ.
       item0 (select ''N'' [short_trace ''BHE'' 0.05 40, short_trace ''BHN'' 0.05 40,
                            short_trace ''BHZ'' 0.05 40]) = Inr trN
       \<and> item0 (select ''E'' [short_trace ''BHE'' 0.05 40, short_trace ''BHN'' 0.05 40,
                            short_trace ''BHZ'' 0.05 40]) = Inr trE
       \<and> item0 (select ''Z'' [short_trace ''BHE'' 0.05 40, short_trace ''BHN'' 0.05 40,
                            short_trace ''BHZ'' 0.05 40]) = Inr trZ
       \<and> processed sample_lib trN = Inr pN \<and> processed sample_lib trE = Inr pE
       \<and> processed sample_lib trZ = Inr pZ
       \<and> get_data_NEZ sample_lib client_20Hz (sample_sta ['''']) day1_start day1_end [] NaN
           = ([EvQuery ''''], Inr (False, Some pN, Some pE, Some pZ))"
    by blast
  then have a: "get_data_NEZ sample_lib client_20Hz (sample_sta ['''']) day1_start day1_end [] NaN
     = ([EvQuery ''''],
        Inr (False, Some ((short_trace ''BHN'' 0.05 40)\<lparr>delta := 1 / 5\<rparr>),
             Some ((short_trace ''BHE'' 0.05 40)\<lparr>delta := 1 / 5\<rparr>),
             Some ((short_trace ''BHZ'' 0.05 40)\<lparr>delta := 1 / 5\<rparr>)))"
    by (auto simp: select_short item0_def processed_sample short_trace_fields)
  have b: "processed sample_lib (short_trace ''BHN'' 0.05 40)
       = Inr ((short_trace ''BHN'' 0.05 40)\<lparr>delta := 1 / 5\<rparr>)"
    by (simp add: processed_sample short_trace_fields)
  from T1 process_1Hz have c:
    "get_data_NEZ sample_lib client_1Hz (sample_sta ['''']) day1_start day1_end [] NaN
       = ([EvQuery ''''], Inl (LibError ''ValueError''))"
    by blast
  from a b c show ?thesis by simp
qed

lemma files_single_none:
  "cmp = ''N'' \<or> cmp = ''E'' \<Longrightarrow>
   lclfiles_single [''/data/2015.001.CN.STA..BHZ.SAC''] (sample_sta locs) cmp ''2015'' ''001'' = []"
  by (auto simp add: lclfiles_single_def sample_sta_def upper_simps
        fnmatch_filter_def format1_def format2_def pad_def)

lemma files_single_Z_only:
  "lclfiles_single [''/data/2015.001.CN.STA..BHZ.SAC''] (sample_sta locs) ''Z'' ''2015'' ''001''
     = [''/data/2015.001.CN.STA..BHZ.SAC'']"
  by (simp add: lclfiles_single_def sample_sta_def upper_simps
        fnmatch_filter_def format1_def format2_def pad_def)

theorem unbound_st_raises_witness:
  "location (sample_sta []) = []
   \<and> snd (get_data_NEZ sample_lib client_down (sample_sta []) day1_start day1_end [] NaN)
       = Inl UnboundLocalError
   \<and> snd (get_data_NEZ sample_lib client_down (sample_sta []) day1_start day1_end
            [''/data/2015.001.CN.STA..BHZ.SAC''] NaN)
       = Inl UnboundLocalError"
proof -
  have loc: "location (sample_sta []) = []" by (simp add: sample_sta_def)
  have z: "local_Z sample_lib (sample_sta []) day1_start day1_end [''/data/2015.001.CN.STA..BHZ.SAC''] NaN
     = ([EvRead ''/data/2015.001.CN.STA..BHZ.SAC''], Inr (False, Some [day_trace ''BHZ'' 1420070400]))"
    by (simp add: local_Z_def parse_localdata_for_comp_def single_day_def sample_times
        files_single_Z_only sample_lib_simps sample_disk_def nodata_convert_def day_trace_def
        item0_def data_unavailable_def)
  have n: "local_N sample_lib (sample_sta []) day1_start day1_end [''/data/2015.001.CN.STA..BHZ.SAC''] NaN
     = ([], Inr (True, None))"
    by (simp add: local_N_def parse_localdata_for_comp_def single_day_def sample_times
        files_single_none)
  have e: "local_E sample_lib (sample_sta []) day1_start day1_end [''/data/2015.001.CN.STA..BHZ.SAC''] NaN
     = ([], Inr (True, None))"
    by (simp add: local_E_def parse_localdata_for_comp_def single_day_def sample_times
        files_single_none)
  have a: "snd (get_data_NEZ sample_lib client_down (sample_sta []) day1_start day1_end [] NaN)
       = Inl UnboundLocalError"
    by (rule unbound_st_raises [OF loc]) simp
  have b: "snd (get_data_NEZ sample_lib client_down (sample_sta []) day1_start day1_end
            [''/data/2015.001.CN.STA..BHZ.SAC''] NaN) = Inl UnboundLocalError"
    by (rule unbound_st_raises [OF loc]) (use z n e in blast)
  from loc a b show ?thesis by simp
qed

subsection \<open>\<^verbatim>\<open>parse_localdata_for_comp\<close>: the search on disk\<close>

lemma concat_map_Nil: "concat (map (\<lambda>x. []) xs) = []"
  by (induction xs) simp_all

lemma lclfiles_single_three_stages:
  "lclfiles_single stdata sta cmp yr jd =
     (let l1 = fnmatch_filter stdata
                 (format1 yr jd (upper (network sta)) (upper (station sta))
                    (take 2 (upper (channel sta))) (upper cmp));
          l2 = fnmatch_filter stdata
                 (format2 yr jd (upper (network sta)) (upper (station sta)) (upper cmp));
          l3 = concat (map (\<lambda>anet. fnmatch_filter stdata
                    (format1 yr jd (upper anet) (upper (station sta))
                       (take 2 (upper (channel sta))) (upper cmp))) (altnet sta))
      in if l1 \<noteq> [] then l1 else if l2 \<noteq> [] then l2 else l3)"
  by (auto simp: lclfiles_single_def Let_def concat_map_Nil cong: map_cong)

text \<open>
  C3. In the single-day case the fourth stage of the search loops over \<^verbatim>\<open>sta.altnet\<close> but
  formats the pattern with \<^verbatim>\<open>sta.network\<close> (line 478), so it repeats the second stage and
  never looks for Format 2 with an alternate network code, as
  \<open>lclfiles_single_three_stages\<close> shows. On a disk whose only file is named after the
  alternate network \<^verbatim>\<open>PO\<close> with another channel code, the function returns
  \<^verbatim>\<open>(True, None)\<close> without reading, although Format 2 with \<^verbatim>\<open>PO\<close> matches the file and the
  search of the two-day case (\<open>lclfiles_day\<close>) finds it.
\<close>

theorem single_day_skips_altnet_format2:
  "parse_localdata_for_comp sample_lib ''Z'' [''/data/2015.001.PO.STA..HHZ.SAC''] (sample_sta [''''])
       day1_start day1_end NaN = ([], Inr (True, None))
   \<and> fnmatch_filter [''/data/2015.001.PO.STA..HHZ.SAC'']
         (format2 (strftime_Y day1_start) (strftime_j day1_start) (upper ''PO'')
            (upper (station (sample_sta ['''']))) (upper ''Z''))
       = [''/data/2015.001.PO.STA..HHZ.SAC'']
   \<and> altnet (sample_sta ['''']) = [''PO'']
   \<and> lclfiles_day [''/data/2015.001.PO.STA..HHZ.SAC''] (sample_sta ['''']) ''Z''
         (strftime_Y day1_start) (strftime_j day1_start)
       = [''/data/2015.001.PO.STA..HHZ.SAC'']"
  by (simp add: parse_localdata_for_comp_def single_day_def sample_times lclfiles_single_def
        lclfiles_day_def sample_sta_def upper_simps fnmatch_filter_def format1_def format2_def pad_def)

lemma files_day_2015_001:
  "lclfiles_day sample_stdata (sample_sta locs) ''Z'' ''2015'' ''001'' = [''/data/2015.001.CN.STA..BHZ.SAC'']"
  by (simp add: lclfiles_day_def sample_stdata_def sample_disk_def sample_sta_def upper_simps
        fnmatch_filter_def format1_def format2_def pad_def)

lemma files_day_2015_002:
  "lclfiles_day sample_stdata (sample_sta locs) ''Z'' ''2015'' ''002'' = [''/data/2015.002.CN.STA..BHZ.SAC'']"
  by (simp add: lclfiles_day_def sample_stdata_def sample_disk_def sample_sta_def upper_simps
        fnmatch_filter_def format1_def format2_def pad_def)

lemma files_day_2016_001:
  "lclfiles_day sample_stdata (sample_sta locs) ''Z'' ''2016'' ''001'' = [''/data/2016.001.CN.STA..BHZ.SAC'']"
  by (simp add: lclfiles_day_def sample_stdata_def sample_disk_def sample_sta_def upper_simps
        fnmatch_filter_def format1_def format2_def pad_def)

text \<open>
  C4. Line 455 compares the days of the year only. For a window from the first day of
  2015 to the first day of 2016, two different calendar days, the function takes the
  single-day path: it reads the file of the first day alone and never the file of the
  last day, which the two-day path reads.
\<close>

theorem year_apart_takes_single_day_path:
  "(year day1_start \<noteq> year next_year_end)
   \<and> parse_localdata_for_comp sample_lib ''Z'' sample_stdata (sample_sta ['''']) day1_start next_year_end NaN
       = single_day sample_lib ''Z'' sample_stdata (sample_sta ['''']) day1_start next_year_end NaN
   \<and> single_day sample_lib ''Z'' sample_stdata (sample_sta ['''']) day1_start next_year_end NaN
       = ([EvRead ''/data/2015.001.CN.STA..BHZ.SAC''], Inr (True, None))
   \<and> two_days sample_lib ''Z'' sample_stdata (sample_sta ['''']) day1_start next_year_end NaN
       = ([EvRead ''/data/2015.001.CN.STA..BHZ.SAC'', EvRead ''/data/2016.001.CN.STA..BHZ.SAC''],
          Inl TypeError)"
  by (simp add: parse_localdata_for_comp_def single_day_def two_days_def sample_times files_single_Z
        files_day_2015_001 files_day_2016_001
        sample_lib_simps sample_disk_def nodata_convert_def day_trace_def item0_def data_unavailable_def)
     (simp add: day1_start_def next_year_end_def)

lemma two_day_merge_sample:
  "parse_localdata_for_comp sample_lib ''Z'' sample_stdata (sample_sta ['''']) day1_late day2_end NaN
     = ([EvRead ''/data/2015.001.CN.STA..BHZ.SAC'', EvRead ''/data/2015.002.CN.STA..BHZ.SAC'',
         EvMerge ''/data/2015.001.CN.STA..BHZ.SAC'' ''/data/2015.002.CN.STA..BHZ.SAC''],
        Inr (False, Some [(day_trace ''BHZ'' 1420070400)\<lparr>endtime := 1420243199.95, data := [Num 1, Num 2, Num 1, Num 2]\<rparr>]))"
  by (simp add: parse_localdata_for_comp_def two_days_def sample_times
        files_day_2015_001 files_day_2015_002 try_merge_def sample_merge_def
        sample_lib_simps sample_disk_def nodata_convert_def day_trace_def item0_def data_unavailable_def)

subsection \<open>\<^verbatim>\<open>parse_localdata_for_comp\<close>: merging two days\<close>

lemma nodata_convert_idem:
  "nodata_convert ndv (nodata_convert ndv tr) = nodata_convert ndv tr"
  by (auto simp: nodata_convert_def Let_def)

lemma try_merge_Some:
  assumes "try_merge lb tstart tend s = Some st"
  shows "\<exists>m. merge lb s = Inr [m] \<and> starttime m \<le> timestamp tstart
            \<and> endtime m \<ge> timestamp tend \<and> trim lb tstart tend [m] = Inr st"
proof -
  from assms obtain ms where m: "merge lb s = Inr ms" "length ms = 1"
    by (auto simp: try_merge_def split: sum.splits if_splits)
  then obtain m where ms: "ms = [m]" by (cases ms) auto
  with assms m show ?thesis
    by (auto simp: try_merge_def split: sum.splits if_splits)
qed

lemma overlap_step:
  assumes "read lb f1 = Inr (tr1 # r1)" "read lb f2 = Inr (tr2 # r2)"
    and "endtime tr1 \<ge> starttime tr2 - delta tr2"
  shows "overlap lb f1 f2"
  using assms by (simp add: overlap_def)

lemma merged_step:
  assumes "read lb f1 = Inr (tr1 # r1)" "read lb f2 = Inr (tr2 # r2)"
    and "try_merge lb tstart tend ((nodata_convert ndv tr1 # r1) @ (nodata_convert ndv tr2 # r2)) = Some st"
  shows "merged_from lb tstart tend ndv f1 f2 st"
  using assms(1,2) try_merge_Some [OF assms(3)]
  by (auto simp: merged_from_def)

lemma spec_extend:
  assumes a1: "\<forall>f1 f2. EvMerge f1 f2 \<in> set evs' \<longrightarrow> M' f1 f2"
    and a2: "\<forall>b x. r = Inr (Some (b, x)) \<longrightarrow>
               (\<exists>f1 f2 st. \<not> b \<and> x = Some st \<and> EvMerge f1 f2 \<in> set evs' \<and> G f1 f2 st)"
    and m: "\<And>a b. EvMerge a b \<in> set evs \<Longrightarrow> M a b \<or> EvMerge a b \<in> set evs'"
    and m': "\<And>a b. EvMerge a b \<in> set evs' \<Longrightarrow> EvMerge a b \<in> set evs"
    and mm: "\<And>a b. M' a b \<Longrightarrow> M a b"
  shows "(\<forall>f1 f2. EvMerge f1 f2 \<in> set evs \<longrightarrow> M f1 f2)
       \<and> (\<forall>b x. r = Inr (Some (b, x)) \<longrightarrow>
             (\<exists>f1 f2 st. \<not> b \<and> x = Some st \<and> EvMerge f1 f2 \<in> set evs \<and> G f1 f2 st))"
proof (intro conjI allI impI)
  fix f1 f2
  assume "EvMerge f1 f2 \<in> set evs"
  from m [OF this] show "M f1 f2"
  proof
    assume "M f1 f2"
    then show ?thesis .
  next
    assume "EvMerge f1 f2 \<in> set evs'"
    with a1 have "M' f1 f2" by simp
    then show ?thesis by (rule mm)
  qed
next
  fix b x
  assume rr: "r = Inr (Some (b, x))"
  from a2 [rule_format, OF rr] obtain f1 f2 st where
    h: "\<not> b" "x = Some st" "EvMerge f1 f2 \<in> set evs'" "G f1 f2 st"
    by (elim exE conjE)
  from m' [OF h(3)] h(1,2,4)
  show "\<exists>f1 f2 st. \<not> b \<and> x = Some st \<and> EvMerge f1 f2 \<in> set evs \<and> G f1 f2 st"
    by (intro exI conjI)
qed

lemma spec_return:
  assumes m: "\<And>a b. EvMerge a b \<in> set evs \<Longrightarrow> M a b"
    and r: "r = Inr (Some (False, Some st))"
    and e: "EvMerge g1 g2 \<in> set evs" and g: "G g1 g2 st"
  shows "(\<forall>f1 f2. EvMerge f1 f2 \<in> set evs \<longrightarrow> M f1 f2)
       \<and> (\<forall>b x. r = Inr (Some (b, x)) \<longrightarrow>
             (\<exists>f1 f2 st. \<not> b \<and> x = Some st \<and> EvMerge f1 f2 \<in> set evs \<and> G f1 f2 st))"
proof (intro conjI allI impI)
  fix f1 f2
  assume "EvMerge f1 f2 \<in> set evs"
  then show "M f1 f2" by (rule m)
next
  fix b x
  assume "r = Inr (Some (b, x))"
  with r have "\<not> b" "x = Some st" by simp_all
  with e g show "\<exists>f1 f2 st. \<not> b \<and> x = Some st \<and> EvMerge f1 f2 \<in> set evs \<and> G f1 f2 st"
    by (intro exI conjI)
qed

lemma spec_raise:
  assumes m: "\<And>a b. EvMerge a b \<in> set evs \<Longrightarrow> M a b"
    and r: "r = Inl e \<or> r = Inr None"
  shows "(\<forall>f1 f2. EvMerge f1 f2 \<in> set evs \<longrightarrow> M f1 f2)
       \<and> (\<forall>b x. r = Inr (Some (b, x)) \<longrightarrow>
             (\<exists>f1 f2 st. \<not> b \<and> x = Some st \<and> EvMerge f1 f2 \<in> set evs \<and> G f1 f2 st))"
  using assms by auto

lemma merge_inner_spec:
  assumes "read lb sacf1 = Inr st1"
    and "merge_inner lb tstart tend ndv sacf1 st1 files = (evs, r)"
  shows "(\<forall>f1 f2. EvMerge f1 f2 \<in> set evs \<longrightarrow> f1 = sacf1 \<and> f2 \<in> set files \<and> overlap lb f1 f2)
       \<and> (\<forall>b x. r = Inr (Some (b, x)) \<longrightarrow>
             (\<exists>f1 f2 st. \<not> b \<and> x = Some st \<and> EvMerge f1 f2 \<in> set evs
                 \<and> merged_from lb tstart tend ndv f1 f2 st))"
  using assms(2)
proof (induction files arbitrary: evs r)
  case Nil
  then have "evs = []" "r = Inr None" by simp_all
  then show ?case by simp
next
  case (Cons f2 rest)
  obtain evs' r' where rec: "merge_inner lb tstart tend ndv sacf1 st1 rest = (evs', r')"
    by (cases "merge_inner lb tstart tend ndv sacf1 st1 rest")
  note IH = Cons.IH [OF rec]
  show ?case
  proof (cases "read lb f2")
    case (Inl e)
    with Cons.prems have "evs = [EvRead f2]" "r = Inl e" by simp_all
    then show ?thesis by simp
  next
    case (Inr st2)
    show ?thesis
    proof (cases st1)
      case Nil
      with Inr Cons.prems have "evs = [EvRead f2]" "r = Inl IndexError" by simp_all
      then show ?thesis by simp
    next
      case c1: (Cons tr1 r1)
      show ?thesis
      proof (cases st2)
        case Nil
        with Inr c1 Cons.prems have "evs = [EvRead f2]" "r = Inl IndexError" by simp_all
        then show ?thesis by simp
      next
        case c2: (Cons tr2 r2)
        have rd1: "read lb sacf1 = Inr (tr1 # r1)" using assms(1) c1 by simp
        have rd2: "read lb f2 = Inr (tr2 # r2)" using Inr c2 by simp
        have rec': "merge_inner lb tstart tend ndv sacf1 (tr1 # r1) rest = (evs', r')"
          using rec c1 by simp
        have step: "merge_inner lb tstart tend ndv sacf1 (tr1 # r1) (f2 # rest) = (evs, r)"
          using Cons.prems c1 by simp
        show ?thesis
        proof (cases "endtime tr1 \<ge> starttime tr2 - delta tr2")
          case False
          show ?thesis
          proof (cases "utc_format_raises lb")
            case True
            with step rd2 False have "evs = [EvRead f2]" "r = Inl TypeError" by simp_all
            then show ?thesis by simp
          next
            case nr: False
            with step rd2 False rec' have eq: "evs = EvRead f2 # evs'" "r = r'" by simp_all
            show ?thesis
              unfolding eq(2)
            proof (rule spec_extend [where evs' = evs'
                  and M' = "\<lambda>f1 g. f1 = sacf1 \<and> g \<in> set rest \<and> overlap lb f1 g"])
              show "\<forall>f1 f2. EvMerge f1 f2 \<in> set evs' \<longrightarrow> f1 = sacf1 \<and> f2 \<in> set rest \<and> overlap lb f1 f2"
                using IH by (rule conjunct1)
              show "\<forall>b x. r' = Inr (Some (b, x)) \<longrightarrow>
                 (\<exists>f1 f2 st. \<not> b \<and> x = Some st \<and> EvMerge f1 f2 \<in> set evs'
                    \<and> merged_from lb tstart tend ndv f1 f2 st)"
                using IH by (rule conjunct2)
            qed (simp_all add: eq(1))
          qed
        next
          case True
          note ov = overlap_step [OF rd1 rd2 True]
          show ?thesis
          proof (cases "try_merge lb tstart tend
                         ((nodata_convert ndv tr1 # r1) @ (nodata_convert ndv tr2 # r2))")
            case None
            with step rd2 rec' True have
              eq: "evs = EvRead f2 # EvMerge sacf1 f2 # evs'" "r = r'"
              by simp_all
            show ?thesis
              unfolding eq(2)
            proof (rule spec_extend [where evs' = evs'
                  and M' = "\<lambda>f1 g. f1 = sacf1 \<and> g \<in> set rest \<and> overlap lb f1 g"])
              show "\<forall>f1 f2. EvMerge f1 f2 \<in> set evs' \<longrightarrow> f1 = sacf1 \<and> f2 \<in> set rest \<and> overlap lb f1 f2"
                using IH by (rule conjunct1)
              show "\<forall>b x. r' = Inr (Some (b, x)) \<longrightarrow>
                 (\<exists>f1 f2 st. \<not> b \<and> x = Some st \<and> EvMerge f1 f2 \<in> set evs'
                    \<and> merged_from lb tstart tend ndv f1 f2 st)"
                using IH by (rule conjunct2)
              show "\<And>a b. EvMerge a b \<in> set evs \<Longrightarrow>
                  (a = sacf1 \<and> b \<in> set (f2 # rest) \<and> overlap lb a b) \<or> EvMerge a b \<in> set evs'"
                using ov by (auto simp: eq(1))
            qed (simp_all add: eq(1))
          next
            case (Some st)
            note mg = merged_step [OF rd1 rd2 Some]
            from step rd2 True Some have
              eq: "evs = [EvRead f2, EvMerge sacf1 f2]" "r = Inr (Some (False, Some st))"
              by simp_all
            show ?thesis
            proof (rule spec_return [where st = st and ?g1.0 = sacf1 and ?g2.0 = f2])
              show "\<And>a b. EvMerge a b \<in> set evs \<Longrightarrow>
                  a = sacf1 \<and> b \<in> set (f2 # rest) \<and> overlap lb a b"
                using ov by (auto simp: eq(1))
            qed (simp_all add: eq mg)
          qed
        qed
      qed
    qed
  qed
qed

lemma merge_outer_spec:
  assumes "merge_outer lb tstart tend ndv files1 files2 = (evs, r)"
  shows "(\<forall>f1 f2. EvMerge f1 f2 \<in> set evs \<longrightarrow> f1 \<in> set files1 \<and> f2 \<in> set files2 \<and> overlap lb f1 f2)
       \<and> (\<forall>b x. r = Inr (Some (b, x)) \<longrightarrow>
             (\<exists>f1 f2 st. \<not> b \<and> x = Some st \<and> EvMerge f1 f2 \<in> set evs
                 \<and> merged_from lb tstart tend ndv f1 f2 st))"
  using assms
proof (induction files1 arbitrary: evs r)
  case Nil
  then have "evs = []" "r = Inr None" by simp_all
  then show ?case by simp
next
  case (Cons f1 rest)
  show ?case
  proof (cases "read lb f1")
    case (Inl e)
    with Cons.prems have "evs = [EvRead f1]" "r = Inl e" by simp_all
    then show ?thesis by simp
  next
    case (Inr st1)
    obtain evi ri where i: "merge_inner lb tstart tend ndv f1 st1 files2 = (evi, ri)"
      by (cases "merge_inner lb tstart tend ndv f1 st1 files2")
    obtain evo ro where o: "merge_outer lb tstart tend ndv rest files2 = (evo, ro)"
      by (cases "merge_outer lb tstart tend ndv rest files2")
    note I = merge_inner_spec [OF Inr i]
    note O = Cons.IH [OF o]
    have I1: "\<forall>a b. EvMerge a b \<in> set evi \<longrightarrow> a = f1 \<and> b \<in> set files2 \<and> overlap lb a b"
      using I by (rule conjunct1)
    have I2: "\<forall>b x. ri = Inr (Some (b, x)) \<longrightarrow>
                 (\<exists>f1 f2 st. \<not> b \<and> x = Some st \<and> EvMerge f1 f2 \<in> set evi
                    \<and> merged_from lb tstart tend ndv f1 f2 st)"
      using I by (rule conjunct2)
    have O1: "\<forall>a b. EvMerge a b \<in> set evo \<longrightarrow> a \<in> set rest \<and> b \<in> set files2 \<and> overlap lb a b"
      using O by (rule conjunct1)
    have O2: "\<forall>b x. ro = Inr (Some (b, x)) \<longrightarrow>
                 (\<exists>f1 f2 st. \<not> b \<and> x = Some st \<and> EvMerge f1 f2 \<in> set evo
                    \<and> merged_from lb tstart tend ndv f1 f2 st)"
      using O by (rule conjunct2)
    show ?thesis
    proof (cases "ri = Inr None")
      case True
      with Cons.prems Inr i o have eq: "evs = EvRead f1 # evi @ evo" "r = ro" by simp_all
      show ?thesis
        unfolding eq(2)
      proof (rule spec_extend [where evs' = evo
            and M' = "\<lambda>a b. a \<in> set rest \<and> b \<in> set files2 \<and> overlap lb a b"])
        show "\<And>a b. EvMerge a b \<in> set evs \<Longrightarrow>
            (a \<in> set (f1 # rest) \<and> b \<in> set files2 \<and> overlap lb a b) \<or> EvMerge a b \<in> set evo"
          using I1 by (auto simp: eq(1))
      qed (rule O1, rule O2, simp_all add: eq(1))
    next
      case False
      with Cons.prems Inr i have eq: "evs = EvRead f1 # evi" "r = ri"
        by (auto split: sum.splits option.splits)
      show ?thesis
        unfolding eq(2)
      proof (rule spec_extend [where evs' = evi
            and M' = "\<lambda>a b. a = f1 \<and> b \<in> set files2 \<and> overlap lb a b"])
      qed (rule I1, rule I2, simp_all add: eq(1))
    qed
  qed
qed

lemma data_unavailable_cases:
  assumes "data_unavailable res = (evs, r)"
  shows "fst res = evs \<and> (\<forall>x. r = Inr (False, x) \<longrightarrow> snd res = Inr (Some (False, x)))"
  using assms
  by (cases res) (auto simp: data_unavailable_def split: sum.splits option.splits)

text \<open>
  C6. In the two-day case (the days of the year of start and end differ), every merge
  that \<^verbatim>\<open>parse_localdata_for_comp\<close> attempts is of a day-1 file with a day-2 file whose
  first traces pass the overlap test of line 585: the end time of the day-1 trace is at
  or after the start time of the day-2 trace minus its sample interval. A return of
  \<^verbatim>\<open>(False, stream)\<close> comes from such a pair: the two files merged into a single trace
  that starts at or before the requested start and ends at or after the requested end,
  and the stream returned is this trace trimmed to the window.
\<close>

theorem two_day_merge_needs_overlap:
  assumes "strftime_j tstart \<noteq> strftime_j tend"
    and "parse_localdata_for_comp lb cmp stdata sta tstart tend ndv = (evs, r)"
  shows "(\<forall>f1 f2. EvMerge f1 f2 \<in> set evs \<longrightarrow>
            f1 \<in> set (lclfiles_day stdata sta cmp (strftime_Y tstart) (strftime_j tstart))
            \<and> f2 \<in> set (lclfiles_day stdata sta cmp (strftime_Y tend) (strftime_j tend))
            \<and> overlap lb f1 f2)
       \<and> (\<forall>x. r = Inr (False, x) \<longrightarrow>
             (\<exists>f1 f2 st. x = Some st \<and> EvMerge f1 f2 \<in> set evs \<and> overlap lb f1 f2
                 \<and> merged_from lb tstart tend ndv f1 f2 st))"
proof -
  let ?l1 = "lclfiles_day stdata sta cmp (strftime_Y tstart) (strftime_j tstart)"
  let ?l2 = "lclfiles_day stdata sta cmp (strftime_Y tend) (strftime_j tend)"
  show ?thesis
  proof (cases "?l1 \<noteq> [] \<and> ?l2 \<noteq> []")
    case False
    with assms have "evs = []" "r = Inr (True, None)"
      by (auto simp: parse_localdata_for_comp_def two_days_def Let_def split: if_splits)
    then show ?thesis by simp
  next
    case True
    obtain evo ro where o: "merge_outer lb tstart tend ndv ?l1 ?l2 = (evo, ro)"
      by (cases "merge_outer lb tstart tend ndv ?l1 ?l2")
    from assms True o have "data_unavailable (evo, ro) = (evs, r)"
      by (simp add: parse_localdata_for_comp_def two_days_def Let_def)
    from data_unavailable_cases [OF this]
    have e: "evo = evs" and rr: "\<forall>x. r = Inr (False, x) \<longrightarrow> ro = Inr (Some (False, x))"
      by simp_all
    note S = merge_outer_spec [OF o, unfolded e]
    have S1: "\<forall>f1 f2. EvMerge f1 f2 \<in> set evs \<longrightarrow> f1 \<in> set ?l1 \<and> f2 \<in> set ?l2 \<and> overlap lb f1 f2"
      using S by (rule conjunct1)
    have S2: "\<forall>b x. ro = Inr (Some (b, x)) \<longrightarrow>
                 (\<exists>f1 f2 st. \<not> b \<and> x = Some st \<and> EvMerge f1 f2 \<in> set evs
                    \<and> merged_from lb tstart tend ndv f1 f2 st)"
      using S by (rule conjunct2)
    show ?thesis
    proof (intro conjI allI impI)
      fix f1 f2
      assume m: "EvMerge f1 f2 \<in> set evs"
      from S1 [rule_format, OF m] show "f1 \<in> set ?l1" "f2 \<in> set ?l2" "overlap lb f1 f2"
        by simp_all
    next
      fix x
      assume "r = Inr (False, x)"
      with rr have "ro = Inr (Some (False, x))" by simp
      from S2 [rule_format, OF this] obtain f1 f2 st where
        h: "x = Some st" "EvMerge f1 f2 \<in> set evs" "merged_from lb tstart tend ndv f1 f2 st"
        by (elim exE conjE)
      from S1 [rule_format, OF h(2)] have "overlap lb f1 f2" by simp
      with h show "\<exists>f1 f2 st. x = Some st \<and> EvMerge f1 f2 \<in> set evs \<and> overlap lb f1 f2
                 \<and> merged_from lb tstart tend ndv f1 f2 st"
        by (intro exI conjI)
    qed
  qed
qed

theorem two_day_merge_needs_overlap_witness:
  "strftime_j day1_late \<noteq> strftime_j day2_end
   \<and> parse_localdata_for_comp sample_lib ''Z'' sample_stdata (sample_sta ['''']) day1_late day2_end NaN
     = ([EvRead ''/data/2015.001.CN.STA..BHZ.SAC'', EvRead ''/data/2015.002.CN.STA..BHZ.SAC'',
         EvMerge ''/data/2015.001.CN.STA..BHZ.SAC'' ''/data/2015.002.CN.STA..BHZ.SAC''],
        Inr (False, Some [(day_trace ''BHZ'' 1420070400)\<lparr>endtime := 1420243199.95, data := [Num 1, Num 2, Num 1, Num 2]\<rparr>]))
   \<and> overlap sample_lib ''/data/2015.001.CN.STA..BHZ.SAC'' ''/data/2015.002.CN.STA..BHZ.SAC''
   \<and> merged_from sample_lib day1_late day2_end NaN
        ''/data/2015.001.CN.STA..BHZ.SAC'' ''/data/2015.002.CN.STA..BHZ.SAC''
        [(day_trace ''BHZ'' 1420070400)\<lparr>endtime := 1420243199.95, data := [Num 1, Num 2, Num 1, Num 2]\<rparr>]"
proof -
  have d: "strftime_j day1_late \<noteq> strftime_j day2_end" by (simp add: sample_times)
  from two_day_merge_needs_overlap [OF d two_day_merge_sample] d two_day_merge_sample
  show ?thesis by auto
qed

end
